theory Spec2Isabelle
  imports Complex_Main "HOL-Library.Sublist" "HOL-Library.Log_Nat"
begin

section \<open>Strings\<close>

text \<open>
  A JavaScript string is a sequence of UTF-16 code units. The development covers the
  strings whose code units are all below 256 (ASCII and Latin-1): such a string is an
  Isabelle \<open>string\<close>, one \<open>char\<close> per code unit, and \<open>length\<close> is the
  JavaScript \<open>.length\<close>. On these strings the three library methods the program
  calls are the functions below.
\<close>

text \<open>
  \<open>String.prototype.toLowerCase\<close>: of the code points below 256 the upper-case
  letters are A-Z (65-90) and the Latin-1 capitals 192-222 without the multiplication
  sign 215; each maps to the code point 32 above it, every other one to itself.
\<close>

definition toLowerCase_char :: "char \<Rightarrow> char" where
  "toLowerCase_char c =
     (let n = (of_char c :: nat)
      in if (65 \<le> n \<and> n \<le> 90) \<or> (192 \<le> n \<and> n \<le> 222 \<and> n \<noteq> 215)
         then char_of (n + 32) else c)"

definition toLowerCase :: "string \<Rightarrow> string" where
  "toLowerCase s = map toLowerCase_char s"

text \<open>
  \<open>String.prototype.trim\<close> removes white space and line terminators from both
  ends. Below 256 these are TAB, LF, VT, FF, CR, SPACE and the no-break space 160.
\<close>

definition isWhiteSpace :: "char \<Rightarrow> bool" where
  "isWhiteSpace c = ((of_char c :: nat) \<in> {9, 10, 11, 12, 13, 32, 160})"

definition trim :: "string \<Rightarrow> string" where
  "trim s = rev (dropWhile isWhiteSpace (rev (dropWhile isWhiteSpace s)))"

text \<open>\<open>s.includes(pat)\<close>: \<open>pat\<close> occurs in \<open>s\<close> as a contiguous run.\<close>

fun includes_str :: "string \<Rightarrow> string \<Rightarrow> bool" where
  "includes_str [] pat = (pat = [])"
| "includes_str (c # cs) pat = (prefix pat (c # cs) \<or> includes_str cs pat)"

text \<open>A string is truthy exactly when it is not empty.\<close>

definition truthy :: "string \<Rightarrow> bool" where
  "truthy s = (s \<noteq> [])"

section \<open>Result Interpreter\<close>

text \<open>
  \<open>getResultCardClassName\<close> returns the CSS class of the result card. The switch is
  on the lower-cased classification; the case \<open>inconclusive\<close> returns the class
  \<open>high-risk\<close>, the default the empty class.
\<close>

definition getResultCardClassName :: "string \<Rightarrow> string" where
  "getResultCardClassName classification =
     (let c = toLowerCase classification
      in if c = ''normal'' then ''normal''
         else if c = ''mild'' then ''mild''
         else if c = ''high-risk'' then ''high-risk''
         else if c = ''inconclusive'' then ''high-risk''
         else '''')"

text \<open>
  \<open>getResultContent\<close> returns one of five paragraphs (Korean text in the source):
  spine in the normal range; mild scoliosis suspected, consultation recommended;
  high-risk group, diagnosis needed; analysis failed, photo unclear; and the default
  "check the analysis result".
\<close>

datatype result_content =
  ContentNormal | ContentMild | ContentHighRisk | ContentInconclusive | ContentDefault

definition getResultContent :: "string \<Rightarrow> result_content" where
  "getResultContent classification =
     (let c = toLowerCase classification
      in if c = ''normal'' then ContentNormal
         else if c = ''mild'' then ContentMild
         else if c = ''high-risk'' then ContentHighRisk
         else if c = ''inconclusive'' then ContentInconclusive
         else ContentDefault)"

section \<open>Data model\<close>

text \<open>
  The interfaces \<open>AnalysisResult\<close> and \<open>HistoryItem\<close>. A JavaScript number
  parsed from JSON is a finite double, which is a rational number; \<open>date\<close> is the
  optional field of the interface.
\<close>

record AnalysisResult =
  cobbAngle :: rat
  classification :: string
  date :: "string option"

record HistoryItem = AnalysisResult +
  timestamp :: int

text \<open>
  The messages of the program are Korean text. Each is one constructor here:
  \<open>error_text\<close> for the values given to \<open>setError\<close> (\<open>NoError\<close> is the empty
  string), \<open>alert_text\<close> for the arguments of \<open>alert\<close>.
  \<^item> \<open>ErrUploadImageFirst\<close>: "upload an image first";
  \<^item> \<open>ErrApiKeyRequired\<close>: "an API key is needed, enter it in the settings";
  \<^item> \<open>ErrQuotaExceeded\<close>: "the free quota is exceeded, register your own API key in
    the settings";
  \<^item> \<open>ErrAuthFailed\<close>: "API key authentication failed, check the key in the settings";
  \<^item> \<open>ErrBadImage\<close>: "image error, try another photo";
  \<^item> \<open>ErrContentPolicy\<close>: "the AI cannot analyse the image (content policy)";
  \<^item> \<open>ErrGenericNetwork\<close>: "an error occurred during the analysis" followed by
    "check the network state".
\<close>

datatype error_text =
  NoError | ErrUploadImageFirst | ErrApiKeyRequired | ErrQuotaExceeded | ErrAuthFailed
  | ErrBadImage | ErrContentPolicy | ErrGenericNetwork

datatype alert_text = AlertKeySaved | AlertInvalidKey

text \<open>
  The state of the \<open>App\<close> component that the modelled handlers read or write, the
  browser's \<open>localStorage\<close>, and the log of the \<open>alert\<close> calls made so far.
  Of \<open>imageFile\<close> only its presence is read.
\<close>

record app_state =
  imageFile :: bool
  isLoading :: bool
  result :: "AnalysisResult option"
  error :: error_text
  isSettingsModalOpen :: bool
  manualApiKey :: string
  envKeyDetected :: bool
  history :: "HistoryItem list"
  localStorage :: "string \<rightharpoonup> string"
  alerts :: "alert_text list"

text \<open>The \<open>useState\<close> defaults of \<open>App\<close>, over a given content of the storage.\<close>

definition initial_state :: "(string \<rightharpoonup> string) \<Rightarrow> app_state" where
  "initial_state storage =
     \<lparr>imageFile = False, isLoading = False, result = None, error = NoError,
      isSettingsModalOpen = False, manualApiKey = [], envKeyDetected = False,
      history = [], localStorage = storage, alerts = []\<rparr>"

section \<open>Credential Resolver\<close>

text \<open>
  The environment of \<open>getEnvConfig\<close>: \<open>import.meta.env\<close> and \<open>process.env\<close>,
  each \<open>None\<close> when the object does not exist. A variable that is not set reads as
  \<open>undefined\<close>, which is falsy like the empty string; \<open>env_get\<close> returns the
  empty string for it.
\<close>

record environment =
  import_meta_env :: "(string \<rightharpoonup> string) option"
  process_env :: "(string \<rightharpoonup> string) option"

definition env_get :: "(string \<rightharpoonup> string) \<Rightarrow> string \<Rightarrow> string" where
  "env_get m k = (case m k of None \<Rightarrow> [] | Some v \<Rightarrow> v)"

text \<open>\<open>a || b || c || ''\<close>\<close>

definition or3 :: "string \<Rightarrow> string \<Rightarrow> string \<Rightarrow> string" where
  "or3 a b c = (if truthy a then a else if truthy b then b else if truthy c then c else [])"

record emailJs_config =
  publicKey :: string
  serviceId :: string
  templateId :: string

record env_config =
  apiKey :: string
  emailJs :: emailJs_config

text \<open>One variable of \<open>getEnvConfig\<close>: the Vite name first, then the three
  \<open>process.env\<close> names if the Vite step left the value empty.\<close>

definition env_lookup :: "environment \<Rightarrow> string \<Rightarrow> string \<Rightarrow> string \<Rightarrow> string \<Rightarrow> string" where
  "env_lookup env vite react next plain =
     (let v = (case import_meta_env env of
                 None \<Rightarrow> []
               | Some m \<Rightarrow> if truthy (env_get m vite) then env_get m vite else [])
      in if \<not> truthy v then
           (case process_env env of
              None \<Rightarrow> v
            | Some p \<Rightarrow> or3 (env_get p react) (env_get p next) (env_get p plain))
         else v)"

definition getEnvConfig :: "environment \<Rightarrow> env_config" where
  "getEnvConfig env =
     \<lparr>apiKey = env_lookup env ''VITE_API_KEY'' ''REACT_APP_API_KEY''
                 ''NEXT_PUBLIC_API_KEY'' ''API_KEY'',
      emailJs =
        \<lparr>publicKey = env_lookup env ''VITE_EMAILJS_PUBLIC_KEY'' ''REACT_APP_EMAILJS_PUBLIC_KEY''
                        ''NEXT_PUBLIC_EMAILJS_PUBLIC_KEY'' ''EMAILJS_PUBLIC_KEY'',
         serviceId = env_lookup env ''VITE_EMAILJS_SERVICE_ID'' ''REACT_APP_EMAILJS_SERVICE_ID''
                        ''NEXT_PUBLIC_EMAILJS_SERVICE_ID'' ''EMAILJS_SERVICE_ID'',
         templateId = env_lookup env ''VITE_EMAILJS_TEMPLATE_ID'' ''REACT_APP_EMAILJS_TEMPLATE_ID''
                        ''NEXT_PUBLIC_EMAILJS_TEMPLATE_ID'' ''EMAILJS_TEMPLATE_ID''\<rparr>\<rparr>"

text \<open>
  The key that \<open>handleAnalyze\<close> uses: the environment's, else the
  \<open>manualApiKey\<close> of the state, else the stored \<open>gemini_api_key\<close>, else the
  empty string.
\<close>

definition handleAnalyze_apiKey :: "environment \<Rightarrow> app_state \<Rightarrow> string" where
  "handleAnalyze_apiKey env s =
     (let k0 = apiKey (getEnvConfig env);
          k1 = (if \<not> truthy k0 then manualApiKey s else k0);
          k2 = (if \<not> truthy k1 then env_get (localStorage s) ''gemini_api_key'' else k1)
      in k2)"

text \<open>\<open>handleSaveApiKey\<close>, the save operation of the settings panel.\<close>

definition handleSaveApiKey :: "string \<Rightarrow> app_state \<Rightarrow> app_state" where
  "handleSaveApiKey key s =
     (let trimmedKey = trim key
      in if length trimmedKey > 10 then
           s\<lparr>localStorage := (localStorage s)(''gemini_api_key'' \<mapsto> trimmedKey),
             manualApiKey := trimmedKey,
             error := NoError,
             isSettingsModalOpen := False,
             alerts := alerts s @ [AlertKeySaved]\<rparr>
         else s\<lparr>alerts := alerts s @ [AlertInvalidKey]\<rparr>)"

section \<open>History Store\<close>

text \<open>
  \<open>saveToHistory\<close>. The two readings of the clock, \<open>new Date().toLocaleDateString()\<close>
  and \<open>Date.now()\<close>, are the arguments \<open>today\<close> and \<open>now\<close>;
  \<open>JSON.stringify\<close> is the argument \<open>stringify\<close>.
\<close>

definition newItem :: "AnalysisResult \<Rightarrow> string \<Rightarrow> int \<Rightarrow> HistoryItem" where
  "newItem newResult today now =
     \<lparr>cobbAngle = cobbAngle newResult, classification = classification newResult,
      date = Some today, timestamp = now\<rparr>"

definition saveToHistory ::
  "(HistoryItem list \<Rightarrow> string) \<Rightarrow> string \<Rightarrow> int \<Rightarrow> AnalysisResult \<Rightarrow> app_state \<Rightarrow> app_state" where
  "saveToHistory stringify today now newResult s =
     (let updatedHistory = newItem newResult today now # history s
      in s\<lparr>history := updatedHistory,
           localStorage := (localStorage s)(''scolio_history'' \<mapsto> stringify updatedHistory)\<rparr>)"

text \<open>
  Appends in sequence, each with its result and its readings of the clock. The component
  is rendered again after each change of the state, so an append reads the history that
  the one before it has left.
\<close>

fun saveToHistory_seq ::
  "(HistoryItem list \<Rightarrow> string) \<Rightarrow> (AnalysisResult \<times> string \<times> int) list \<Rightarrow> app_state \<Rightarrow> app_state" where
  "saveToHistory_seq stringify [] s = s"
| "saveToHistory_seq stringify ((r, today, now) # rest) s =
     saveToHistory_seq stringify rest (saveToHistory stringify today now r s)"

text \<open>
  The effect that runs once when \<open>App\<close> is mounted, without its EmailJS part:
  it records whether the environment has a key and loads the saved key and the saved
  history. \<open>JSON.parse\<close> is the argument \<open>parse\<close>, \<open>None\<close> where it throws;
  the \<open>catch\<close> block is empty.
\<close>

definition useEffect_init ::
  "(string \<Rightarrow> HistoryItem list option) \<Rightarrow> environment \<Rightarrow> app_state \<Rightarrow> app_state" where
  "useEffect_init parse env s =
     (let config = getEnvConfig env;
          s1 = s\<lparr>envKeyDetected := truthy (apiKey config)\<rparr>;
          savedKey = env_get (localStorage s1) ''gemini_api_key'';
          s2 = (if truthy savedKey then s1\<lparr>manualApiKey := savedKey\<rparr> else s1);
          savedHistory = env_get (localStorage s2) ''scolio_history''
      in if truthy savedHistory then
           (case parse savedHistory of
              Some h \<Rightarrow> s2\<lparr>history := h\<rparr>
            | None \<Rightarrow> s2)
         else s2)"

section \<open>Analysis\<close>

text \<open>
  The \<open>catch\<close> block of \<open>handleAnalyze\<close>, on the text \<open>e.toString()\<close> of what
  was thrown.
\<close>

definition handleAnalyze_catch :: "string \<Rightarrow> app_state \<Rightarrow> app_state" where
  "handleAnalyze_catch e_toString s =
     (let errorString = toLowerCase e_toString
      in if includes_str errorString ''429'' \<or> includes_str errorString ''quota'' then
           s\<lparr>isSettingsModalOpen := True, error := ErrQuotaExceeded\<rparr>
         else if includes_str errorString ''key'' \<or> includes_str errorString ''403''
                 \<or> includes_str errorString ''401'' then
           s\<lparr>isSettingsModalOpen := True, error := ErrAuthFailed\<rparr>
         else if includes_str errorString ''400'' then s\<lparr>error := ErrBadImage\<rparr>
         else if includes_str errorString ''safety'' then s\<lparr>error := ErrContentPolicy\<rparr>
         else s\<lparr>error := ErrGenericNetwork\<rparr>)"

text \<open>
  \<open>handleAnalyze\<close>. What happens inside its \<open>try\<close> block (compression, the call of
  the model, \<open>JSON.parse\<close> of the answer) is outside the program: \<open>try_body\<close>
  gives, for the key used, either the text of the exception thrown or the parsed answer.
\<close>

datatype try_outcome = Throws string | Returns AnalysisResult

definition handleAnalyze ::
  "environment \<Rightarrow> (string \<Rightarrow> try_outcome) \<Rightarrow> (HistoryItem list \<Rightarrow> string) \<Rightarrow> string \<Rightarrow> int
     \<Rightarrow> app_state \<Rightarrow> app_state" where
  "handleAnalyze env try_body stringify today now s =
     (if \<not> imageFile s then s\<lparr>error := ErrUploadImageFirst\<rparr>
      else
        let k = handleAnalyze_apiKey env s
        in if \<not> truthy k then s\<lparr>isSettingsModalOpen := True, error := ErrApiKeyRequired\<rparr>
           else
             let s1 = s\<lparr>isLoading := True, error := NoError, result := None\<rparr>;
                 s2 = (case try_body k of
                         Returns resultJson \<Rightarrow>
                           saveToHistory stringify today now resultJson
                             (s1\<lparr>result := Some resultJson\<rparr>)
                       | Throws e \<Rightarrow> handleAnalyze_catch e s1)
             in s2\<lparr>isLoading := False\<rparr>)"

section \<open>Rendering of the angle\<close>

text \<open>
  What the two views put where the angle is shown, as a sequence of pieces: literal text,
  \<open>x.toFixed(1)\<close>, and the default conversion of a number to a string in a template.
  The degree sign is the code point 176.
\<close>

datatype piece = Lit string | ToFixed1 rat | NumToString rat

definition degree_sign :: string where
  "degree_sign = [char_of (176 :: nat)]"

text \<open>The result card of \<open>App\<close>: the expression, then the degree sign.\<close>

definition resultCard_angle :: "AnalysisResult \<Rightarrow> piece list" where
  "resultCard_angle r =
     [if cobbAngle r = - 1 then Lit ''--'' else ToFixed1 (cobbAngle r), Lit degree_sign]"

text \<open>One entry of \<open>HistoryModal\<close>.\<close>

definition HistoryModal_angle :: "HistoryItem \<Rightarrow> piece list" where
  "HistoryModal_angle item =
     (if cobbAngle item > - 1 then [NumToString (cobbAngle item), Lit degree_sign]
      else [Lit ''--''])"

section \<open>Image Preparer\<close>

text \<open>
  JavaScript numbers are IEEE 754 doubles, and every arithmetic operation returns the
  double nearest to the exact result, a tie going to the even significand. A finite
  double is a rational number; \<open>fl q\<close> is the double nearest to the rational \<open>q\<close>,
  for magnitudes in the range of the normal doubles (from \<open>2 powi - 1022\<close> up to
  \<open>2 powi 1024\<close>), where a double has a significand of 53 bits. All numbers computed
  here lie between \<open>2 powi - 22\<close> and \<open>2 powi 32\<close>, or are zero.
\<close>

text \<open>\<open>ilog2 q\<close> is the integer \<open>d\<close> with \<open>2 powi d \<le> q < 2 powi (d + 1)\<close>, for \<open>q > 0\<close>.\<close>

definition ilog2 :: "rat \<Rightarrow> int" where
  "ilog2 q =
     (let d = bitlen (fst (quotient_of q)) - bitlen (snd (quotient_of q))
      in if 2 powi d \<le> q then d else d - 1)"

definition round_half_even :: "rat \<Rightarrow> int" where
  "round_half_even x =
     (let f = \<lfloor>x\<rfloor>; r = x - of_int f
      in if r < 1 / 2 then f
         else if 1 / 2 < r then f + 1
         else if even f then f else f + 1)"

definition fl :: "rat \<Rightarrow> rat" where
  "fl q =
     (if q = 0 then 0
      else let e = ilog2 \<bar>q\<bar> - 52
           in sgn q * of_int (round_half_even (\<bar>q\<bar> / 2 powi e)) * 2 powi e)"

text \<open>
  The "resize logic" of \<open>compressImage\<close> on \<open>img.width\<close> and \<open>img.height\<close>,
  which are integers below \<open>2 ^ 32\<close>. \<open>height *= MAX_WIDTH / width\<close> is a division
  and then a multiplication, each rounded. The result is the pair of the variables
  \<open>width\<close> and \<open>height\<close> after the block.
\<close>

definition MAX_WIDTH :: rat where
  "MAX_WIDTH = 1024"

definition MAX_HEIGHT :: rat where
  "MAX_HEIGHT = 1024"

definition resize :: "nat \<Rightarrow> nat \<Rightarrow> rat \<times> rat" where
  "resize img_width img_height =
     (let width = (of_nat img_width :: rat); height = (of_nat img_height :: rat)
      in if width > height then
           (if width > MAX_WIDTH then (MAX_WIDTH, fl (height * fl (MAX_WIDTH / width)))
            else (width, height))
         else
           (if height > MAX_HEIGHT then (fl (width * fl (MAX_HEIGHT / height)), MAX_HEIGHT)
            else (width, height)))"

text \<open>
  \<open>canvas.width\<close> and \<open>canvas.height\<close> are attributes of the type
  \<open>unsigned long\<close>: an assigned number is truncated towards zero and reduced modulo
  \<open>2 ^ 32\<close>. \<open>canvas_size\<close> is the pair of the two attributes after the assignments
  \<open>canvas.width = width\<close> and \<open>canvas.height = height\<close>.
\<close>

definition toUnsignedLong :: "rat \<Rightarrow> nat" where
  "toUnsignedLong x = nat ((if 0 \<le> x then \<lfloor>x\<rfloor> else - \<lfloor>- x\<rfloor>) mod 2 ^ 32)"

definition canvas_size :: "nat \<Rightarrow> nat \<Rightarrow> nat \<times> nat" where
  "canvas_size img_width img_height =
     (let (width, height) = resize img_width img_height
      in (toUnsignedLong width, toUnsignedLong height))"

text \<open>
  What the promise is resolved with, \<open>canvas.toDataURL('image/jpeg', 0.7).split(',')[1]\<close>.
  For a canvas without pixels, one whose width or height is 0, \<open>toDataURL\<close> returns
  \<open>data:,\<close> and the part after the comma is the empty string. Otherwise it is the
  base64 text of a JPEG image that has the width and the height of the canvas; of this
  text only the two dimensions are kept.
\<close>

datatype payload = EmptyString | Jpeg nat nat

definition toDataURL_data :: "nat \<Rightarrow> nat \<Rightarrow> payload" where
  "toDataURL_data canvas_width canvas_height =
     (if canvas_width = 0 \<or> canvas_height = 0 then EmptyString
      else Jpeg canvas_width canvas_height)"

text \<open>
  \<open>compressImage\<close>. The file is unreadable (\<open>reader.onerror\<close>), or read but not an
  image (\<open>img.onerror\<close>), or decoded to an image of a width and a height; \<open>has_ctx\<close>
  tells whether \<open>getContext('2d')\<close> returns a context. The result is the error the
  promise is rejected with, or the payload it is resolved with.
\<close>

datatype image_file = Unreadable | Undecodable | Decoded nat nat

datatype compress_error = FileReadFailed | ImageLoadFailed | CanvasContextNull

definition compressImage :: "image_file \<Rightarrow> bool \<Rightarrow> compress_error + payload" where
  "compressImage file has_ctx =
     (case file of
        Unreadable \<Rightarrow> Inl FileReadFailed
      | Undecodable \<Rightarrow> Inl ImageLoadFailed
      | Decoded img_width img_height \<Rightarrow>
          (let (canvas_width, canvas_height) = canvas_size img_width img_height
           in if has_ctx then Inr (toDataURL_data canvas_width canvas_height)
              else Inl CanvasContextNull))"

section \<open>The specification's resolver\<close>

text \<open>
  The specification's order of precedence, first non-empty wins: the keys of the
  environment under their aliases, then the key saved by the user (held in the state and
  in the storage).
\<close>

definition spec_first_nonempty :: "string list \<Rightarrow> string" where
  "spec_first_nonempty xs = (case filter truthy xs of [] \<Rightarrow> [] | x # _ \<Rightarrow> x)"

definition spec_environment_keys :: "environment \<Rightarrow> string list" where
  "spec_environment_keys env =
     (case import_meta_env env of None \<Rightarrow> [] | Some m \<Rightarrow> [env_get m ''VITE_API_KEY''])
     @ (case process_env env of
          None \<Rightarrow> []
        | Some p \<Rightarrow> [env_get p ''REACT_APP_API_KEY'', env_get p ''NEXT_PUBLIC_API_KEY'',
                      env_get p ''API_KEY''])"

definition spec_user_saved_keys :: "app_state \<Rightarrow> string list" where
  "spec_user_saved_keys s = [manualApiKey s, env_get (localStorage s) ''gemini_api_key'']"

section \<open>Properties of the strings\<close>

text \<open>\<open>includes_str\<close> is the contiguous-sublist relation of the library.\<close>

lemma includes_str_sublist: "includes_str s pat = sublist pat s"
proof (induction s)
  case Nil
  then show ?case by simp
next
  case (Cons c cs)
  then show ?case by (cases pat) (simp_all add: sublist_Cons_right)
qed

section \<open>Properties of the double arithmetic\<close>

text \<open>The exponent chosen by \<open>ilog2\<close> brackets its argument.\<close>

lemma pow2_bitlen:
  assumes "0 < a"
  shows "(2::rat) powi (bitlen a - 1) \<le> of_int a" and "of_int a < (2::rat) powi bitlen a"
proof -
  from bitlen_bounds [OF assms]
  have lo: "2 ^ nat (bitlen a - 1) \<le> a" and hi: "a < 2 ^ nat (bitlen a)" by simp_all
  have pos: "1 \<le> bitlen a" using assms by (simp add: bitlen_alt_def)
  have "(of_int (2 ^ nat (bitlen a - 1)) :: rat) \<le> of_int a" using lo by (simp only: of_int_le_iff)
  then show "(2::rat) powi (bitlen a - 1) \<le> of_int a"
    using pos by (simp add: power_int_nonneg_exp)
  have "(of_int a :: rat) < of_int (2 ^ nat (bitlen a))" using hi by (simp only: of_int_less_iff)
  then show "of_int a < (2::rat) powi bitlen a"
    using pos by (simp add: power_int_nonneg_exp)
qed

lemma ilog2_bounds:
  assumes "0 < q"
  shows "2 powi (ilog2 q) \<le> q" and "q < 2 powi (ilog2 q + 1)"
proof -
  obtain a b where ab: "quotient_of q = (a, b)" by (cases "quotient_of q")
  then have b: "0 < b" and q: "q = of_int a / of_int b"
    by (simp_all add: quotient_of_denom_pos quotient_of_div)
  from assms q b have a: "0 < a" by (simp add: zero_less_divide_iff)
  define d where "d = bitlen a - bitlen b"
  have bq: "q * of_int b = of_int a" using q b by simp
  have b': "(0::rat) < of_int b" using b by simp
  have "of_int a < (2::rat) powi bitlen a" by (rule pow2_bitlen [OF a])
  also have "\<dots> = 2 powi (d + 1) * 2 powi (bitlen b - 1)"
    by (simp add: d_def power_int_add [symmetric])
  also have "\<dots> \<le> 2 powi (d + 1) * of_int b"
    by (rule mult_left_mono [OF pow2_bitlen(1) [OF b]]) simp
  finally have "q * of_int b < 2 powi (d + 1) * of_int b" by (simp add: bq)
  then have up: "q < 2 powi (d + 1)" using b' by simp
  have "2 powi (d - 1) * of_int b < (2::rat) powi (d - 1) * 2 powi bitlen b"
    by (rule mult_strict_left_mono [OF pow2_bitlen(2) [OF b]]) simp
  also have "\<dots> = 2 powi (bitlen a - 1)"
    by (simp add: d_def power_int_add [symmetric])
  also have "\<dots> \<le> of_int a" by (rule pow2_bitlen [OF a])
  finally have "2 powi (d - 1) * of_int b < q * of_int b" by (simp add: bq)
  then have low: "2 powi (d - 1) < q" using b' by simp
  have il: "ilog2 q = (if 2 powi d \<le> q then d else d - 1)"
    by (simp add: ilog2_def ab d_def Let_def)
  show "2 powi (ilog2 q) \<le> q" using low by (simp add: il)
  show "q < 2 powi (ilog2 q + 1)" using up by (simp add: il not_le)
qed

text \<open>Rounding moves a number by at most half a unit in the last place, which is a
  relative error of at most \<open>2 powi - 53\<close>.\<close>

lemma round_half_even_error: "\<bar>of_int (round_half_even x) - x\<bar> \<le> 1 / 2"
proof -
  have "of_int \<lfloor>x\<rfloor> \<le> x" "x < of_int \<lfloor>x\<rfloor> + 1" by linarith+
  then show ?thesis by (auto simp: round_half_even_def Let_def)
qed

lemma fl_error:
  assumes "0 < q"
  shows "\<bar>fl q - q\<bar> \<le> q / 2 ^ 53"
proof -
  define e where "e = ilog2 q - 52"
  define n where "n = round_half_even (q / 2 powi e)"
  have p: "(0::rat) < 2 powi e" by simp
  have f: "fl q = of_int n * 2 powi e"
    using assms by (simp add: fl_def e_def n_def Let_def)
  have "\<bar>of_int n - q / 2 powi e\<bar> \<le> 1 / 2" unfolding n_def by (rule round_half_even_error)
  then have "\<bar>of_int n - q / 2 powi e\<bar> * 2 powi e \<le> 1 / 2 * 2 powi e"
    by (rule mult_right_mono) simp
  then have "\<bar>(of_int n - q / 2 powi e) * 2 powi e\<bar> \<le> 2 powi e / 2"
    by (simp add: abs_mult)
  then have err: "\<bar>fl q - q\<bar> \<le> 2 powi e / 2"
    by (simp add: f left_diff_distrib)
  have "2 powi e * 2 ^ 52 = (2::rat) powi (ilog2 q)"
    by (simp add: e_def power_int_diff)
  also have "\<dots> \<le> q" by (rule ilog2_bounds [OF assms])
  finally have "2 powi e * 2 ^ 52 \<le> q" .
  then have "2 powi e / 2 \<le> q / 2 ^ 53" by (simp add: field_simps)
  with err show ?thesis by linarith
qed

text \<open>
  Conversely, a number within half a unit of a 53-bit significand in its binade is
  rounded to it; this evaluates \<open>fl\<close> at a given number.
\<close>

lemma ilog2_unique:
  assumes "2 powi d \<le> q" and "q < 2 powi (d + 1)"
  shows "ilog2 q = d"
proof -
  have q: "0 < q" using assms(1) by (rule less_le_trans [rotated]) simp
  have lt: "(2::rat) powi (ilog2 q) < 2 powi (d + 1)"
    using ilog2_bounds(1) [OF q] assms(2) by simp
  have a: "ilog2 q < d + 1"
  proof (rule ccontr)
    assume "\<not> ilog2 q < d + 1"
    then have "(2::rat) powi (d + 1) \<le> 2 powi (ilog2 q)"
      by (intro power_int_increasing) simp_all
    with lt show False by simp
  qed
  have gt: "(2::rat) powi d < 2 powi (ilog2 q + 1)"
    using ilog2_bounds(2) [OF q] assms(1) by simp
  have b: "d < ilog2 q + 1"
  proof (rule ccontr)
    assume "\<not> d < ilog2 q + 1"
    then have "(2::rat) powi (ilog2 q + 1) \<le> 2 powi d"
      by (intro power_int_increasing) simp_all
    with gt show False by simp
  qed
  from a b show ?thesis by simp
qed

lemma round_half_even_unique:
  assumes "\<bar>x - of_int n\<bar> < 1 / 2"
  shows "round_half_even x = n"
proof (cases "of_int n \<le> x")
  case True
  then have "\<lfloor>x\<rfloor> = n" using assms by (simp add: floor_unique)
  then show ?thesis using assms True by (simp add: round_half_even_def)
next
  case False
  then have "\<lfloor>x\<rfloor> = n - 1" using assms by (simp add: floor_unique)
  then show ?thesis using assms False by (simp add: round_half_even_def)
qed

lemma fl_eqI:
  assumes "2 powi (e + 52) \<le> q" and "q < 2 powi (e + 53)"
    and "\<bar>q / 2 powi e - of_int n\<bar> < 1 / 2"
  shows "fl q = of_int n * 2 powi e"
proof -
  have q: "0 < q" using assms(1) by (rule less_le_trans [rotated]) simp
  have "ilog2 q = e + 52" using assms(1,2) by (intro ilog2_unique) (simp_all add: add.commute add.left_commute)
  then show ?thesis using q assms(3) by (simp add: fl_def round_half_even_unique)
qed

text \<open>
  Scaling \<open>x\<close> by \<open>1024 / y\<close> in doubles, for \<open>x \<le> y\<close>: the result is within
  \<open>3 / 2 ^ 43\<close> of the exact quotient, so truncation gives the integer quotient, except
  that an exact integer may be missed from below by one.
\<close>

lemma scaled_error:
  fixes x y :: nat
  assumes xy: "x \<le> y" and y: "0 < y"
  shows "\<bar>fl (of_nat x * fl (1024 / of_nat y)) - 1024 * of_nat x / of_nat y\<bar> \<le> 3 / 2 ^ 43"
proof (cases "x = 0")
  case True
  then show ?thesis by (simp add: fl_def)
next
  case False
  define t :: rat where "t = 1024 / of_nat y"
  define c where "c = fl t"
  define E :: rat where "E = 1024 * of_nat x / of_nat y"
  define p where "p = of_nat x * c"
  have x0: "(0::rat) < of_nat x" using False by simp
  have t0: "0 < t" using y by (simp add: t_def)
  have Et: "E = of_nat x * t" by (simp add: E_def t_def)
  have E0: "0 < E" using x0 t0 by (simp add: Et)
  have "of_nat x * 1024 \<le> (of_nat y :: rat) * 1024" using xy by simp
  then have E1: "E \<le> 1024" using y by (simp add: E_def field_simps)
  have ce: "\<bar>c - t\<bar> \<le> t / 2 ^ 53" unfolding c_def by (rule fl_error [OF t0])
  have "\<bar>p - E\<bar> = of_nat x * \<bar>c - t\<bar>"
    by (simp add: p_def Et right_diff_distrib [symmetric] abs_mult)
  also have "\<dots> \<le> of_nat x * (t / 2 ^ 53)"
    by (rule mult_left_mono [OF ce]) simp
  finally have pe: "\<bar>p - E\<bar> \<le> E / 2 ^ 53" by (simp add: Et)
  have "t / 2 ^ 53 < t" using t0 by simp
  with ce have "0 < c" by linarith
  then have p0: "0 < p" using x0 by (simp add: p_def)
  have "E / 2 ^ 53 \<le> E" using E0 by simp
  with pe have p2: "p \<le> 2 * E" by linarith
  have "\<bar>fl p - p\<bar> \<le> p / 2 ^ 53" by (rule fl_error [OF p0])
  also have "\<dots> \<le> 2 * E / 2 ^ 53" using p2 by (simp add: divide_right_mono)
  finally have re: "\<bar>fl p - p\<bar> \<le> 2 * E / 2 ^ 53" .
  have "\<bar>fl p - E\<bar> \<le> 3 * E / 2 ^ 53" using re pe by linarith
  also have "\<dots> \<le> 3 * 1024 / 2 ^ 53" using E1 by (simp add: divide_right_mono)
  also have "\<dots> = 3 / 2 ^ 43" by simp
  finally show ?thesis by (simp add: p_def c_def t_def E_def)
qed

lemma scaled_floor:
  fixes x y :: nat
  assumes xy: "x \<le> y" and y: "0 < y" and y32: "y < 2 ^ 32"
  shows "toUnsignedLong (fl (of_nat x * fl (1024 / of_nat y))) = (1024 * x) div y
         \<or> (y dvd 1024 * x
            \<and> toUnsignedLong (fl (of_nat x * fl (1024 / of_nat y))) = (1024 * x) div y - 1)"
proof -
  define r where "r = fl (of_nat x * fl (1024 / of_nat y))"
  define E :: rat where "E = 1024 * of_nat x / of_nat y"
  define m where "m = (1024 * x) div y"
  define k where "k = (1024 * x) mod y"
  have err: "\<bar>r - E\<bar> \<le> 3 / 2 ^ 43" unfolding r_def E_def by (rule scaled_error [OF xy y])
  have y0: "(0::rat) < of_nat y" using y by simp
  have "1024 * x = m * y + k" by (simp add: m_def k_def)
  then have "(1024 * of_nat x :: rat) = of_nat m * of_nat y + of_nat k"
    by (metis of_nat_add of_nat_mult of_nat_numeral)
  then have Em: "E = of_nat m + of_nat k / of_nat y"
    using y0 by (simp add: E_def field_simps)
  have ky: "k < y" using y by (simp add: k_def)
  have "(of_nat y :: rat) < 2 ^ 32" using y32 by (metis of_nat_less_iff of_nat_numeral of_nat_power)
  then have iy: "1 / 2 ^ 32 < 1 / (of_nat y :: rat)" using y0 by (simp add: field_simps)
  have "(1024 * x) div y \<le> (1024 * y) div y" by (rule div_le_mono) (simp add: xy)
  then have m1024: "m \<le> 1024" using y by (simp add: m_def)
  have rE: "E - 3 / 2 ^ 43 \<le> r" "r \<le> E + 3 / 2 ^ 43" using err by linarith+
  have E0: "0 \<le> E" by (simp add: E_def)
  show ?thesis
  proof (cases "k = 0")
    case True
    then have EM: "E = of_nat m" by (simp add: Em)
    have dv: "y dvd 1024 * x" using True by (simp add: k_def dvd_eq_mod_eq_0)
    show ?thesis
    proof (cases "m = 0")
      case True
      then have "x = 0" using EM y0 by (simp add: E_def)
      then have "r = 0" by (simp add: r_def fl_def)
      then show ?thesis using True by (simp add: toUnsignedLong_def r_def [symmetric] m_def [symmetric])
    next
      case False
      then have m1: "(1::rat) \<le> of_nat m" by simp
      have lo: "of_nat m - 1 \<le> r" using rE EM by simp
      have hi: "r < of_nat m + 1" using rE EM by simp
      have r0: "0 \<le> r" using lo m1 by linarith
      have "\<lfloor>r\<rfloor> = int m \<or> \<lfloor>r\<rfloor> = int m - 1"
      proof (cases "of_nat m \<le> r")
        case True
        then have "\<lfloor>r\<rfloor> = int m" using hi by (simp add: floor_unique)
        then show ?thesis by simp
      next
        case False
        then have "\<lfloor>r\<rfloor> = int m - 1" using lo by (simp add: floor_unique)
        then show ?thesis by simp
      qed
      moreover have "int m mod 2 ^ 32 = int m" using m1024 by simp
      moreover have "(int m - 1) mod 2 ^ 32 = int m - 1" using m1024 False by simp
      ultimately have "toUnsignedLong r = m \<or> toUnsignedLong r = m - 1"
        using r0 by (auto simp: toUnsignedLong_def nat_diff_distrib)
      then show ?thesis using dv by (auto simp: r_def m_def)
    qed
  next
    case False
    then have "(1::rat) \<le> of_nat k" by simp
    then have k1: "1 / of_nat y \<le> (of_nat k :: rat) / of_nat y" using y0 by (simp add: divide_right_mono)
    have "Suc k \<le> y" using ky by simp
    then have "(of_nat (Suc k) :: rat) \<le> of_nat y" by (simp only: of_nat_le_iff)
    then have "(of_nat k :: rat) + 1 \<le> of_nat y" by simp
    then have "((of_nat k :: rat) + 1) / of_nat y \<le> 1" using y0 by simp
    then have k2: "(of_nat k :: rat) / of_nat y \<le> 1 - 1 / of_nat y" by (simp add: add_divide_distrib)
    have small: "(3::rat) / 2 ^ 43 < 1 / 2 ^ 32" by simp
    have lo: "of_nat m \<le> r" using rE(1) Em k1 iy small by linarith
    have hi: "r < of_nat m + 1" using rE(2) Em k2 iy small by linarith
    have fl: "\<lfloor>r\<rfloor> = int m" using lo hi by (simp add: floor_unique)
    have r0: "0 \<le> r" using lo by (meson of_nat_0_le_iff order_trans)
    have "int m mod 2 ^ 32 = int m" using m1024 by simp
    then have "toUnsignedLong r = m" using r0 fl by (simp add: toUnsignedLong_def)
    then show ?thesis by (simp add: r_def m_def)
  qed
qed

text \<open>The double nearest to a number that is not negative is not negative.\<close>

lemma fl_nonneg:
  assumes "0 \<le> q"
  shows "0 \<le> fl q"
proof (cases "q = 0")
  case True
  then show ?thesis by (simp add: fl_def)
next
  case False
  with assms have q: "0 < q" by simp
  define e where "e = ilog2 q - 52"
  have "0 \<le> q / 2 powi e" using q by simp
  then have "0 \<le> \<lfloor>q / 2 powi e\<rfloor>" by simp
  then have "0 \<le> round_half_even (q / 2 powi e)"
    by (simp add: round_half_even_def Let_def)
  then have "(0::rat) \<le> of_int (round_half_even (q / 2 powi e)) * 2 powi e" by simp
  then show ?thesis using q by (simp add: fl_def e_def Let_def)
qed

text \<open>The scaled side is far below \<open>2 ^ 32\<close>, so the conversion only truncates it.\<close>

lemma scaled_trunc:
  fixes x y :: nat
  assumes xy: "x \<le> y" and y: "0 < y"
  shows "toUnsignedLong (fl (of_nat x * fl (1024 / of_nat y)))
         = nat \<lfloor>fl (of_nat x * fl (1024 / of_nat y))\<rfloor>"
proof -
  define r where "r = fl (of_nat x * fl (1024 / of_nat y))"
  have "(0::rat) \<le> 1024 / of_nat y" by simp
  then have "0 \<le> fl (1024 / of_nat y)" by (rule fl_nonneg)
  then have "0 \<le> of_nat x * fl (1024 / of_nat y)" by simp
  then have r0: "0 \<le> r" unfolding r_def by (rule fl_nonneg)
  have "of_nat x * 1024 \<le> (of_nat y :: rat) * 1024" using xy by simp
  then have E: "1024 * of_nat x / (of_nat y :: rat) \<le> 1024" using y by (simp add: field_simps)
  have "\<bar>r - 1024 * of_nat x / of_nat y\<bar> \<le> 3 / 2 ^ 43"
    unfolding r_def by (rule scaled_error [OF xy y])
  then have "r \<le> 1024 * of_nat x / of_nat y + 3 / 2 ^ 43" by linarith
  moreover have "(3::rat) / 2 ^ 43 < 1" by simp
  ultimately have "r < 1025" using E by linarith
  then have "\<lfloor>r\<rfloor> < 1025" by (simp add: floor_less_iff)
  moreover have "0 \<le> \<lfloor>r\<rfloor>" using r0 by simp
  ultimately have "\<lfloor>r\<rfloor> mod 2 ^ 32 = \<lfloor>r\<rfloor>" by simp
  then show ?thesis using r0 by (simp add: toUnsignedLong_def r_def)
qed

section \<open>Properties of the Image Preparer\<close>

lemma toUnsignedLong_of_nat: "n < 2 ^ 32 \<Longrightarrow> toUnsignedLong (of_nat n) = n"
proof -
  assume "n < 2 ^ 32"
  then have "int n < 2 ^ 32" by (metis of_nat_less_iff of_nat_numeral of_nat_power)
  then show ?thesis by (simp add: toUnsignedLong_def)
qed

lemma toUnsignedLong_1024: "toUnsignedLong 1024 = 1024"
  using toUnsignedLong_of_nat [of 1024] by simp

text \<open>The canvas in the three cases of the resize logic.\<close>

lemma canvas_size_landscape:
  assumes "h < w" and "1024 < w"
  shows "canvas_size w h = (1024, nat \<lfloor>fl (of_nat h * fl (1024 / of_nat w))\<rfloor>)"
proof -
  have r: "resize w h = (1024, fl (of_nat h * fl (1024 / of_nat w)))"
    using assms by (simp add: resize_def MAX_WIDTH_def)
  have "h \<le> w" "0 < w" using assms by simp_all
  from scaled_trunc [OF this] show ?thesis
    by (simp add: canvas_size_def r toUnsignedLong_1024)
qed

lemma canvas_size_portrait:
  assumes "w \<le> h" and "1024 < h"
  shows "canvas_size w h = (nat \<lfloor>fl (of_nat w * fl (1024 / of_nat h))\<rfloor>, 1024)"
proof -
  have r: "resize w h = (fl (of_nat w * fl (1024 / of_nat h)), 1024)"
    using assms by (simp add: resize_def MAX_HEIGHT_def)
  have "0 < h" using assms by simp
  from scaled_trunc [OF assms(1) this] show ?thesis
    by (simp add: canvas_size_def r toUnsignedLong_1024)
qed

lemma canvas_size_within:
  assumes "w \<le> 1024" and "h \<le> 1024"
  shows "canvas_size w h = (w, h)"
proof -
  have "(of_nat w :: rat) \<le> of_nat 1024" "(of_nat h :: rat) \<le> of_nat 1024"
    using assms by (simp_all only: of_nat_le_iff)
  then have r: "resize w h = (of_nat w, of_nat h)"
    by (simp add: resize_def MAX_WIDTH_def MAX_HEIGHT_def Let_def)
  have "w < 2 ^ 32" "h < 2 ^ 32" using assms by simp_all
  then show ?thesis
    by (simp add: canvas_size_def r toUnsignedLong_of_nat)
qed

lemma compressImage_Decoded:
  "compressImage (Decoded w h) True
     = Inr (toDataURL_data (fst (canvas_size w h)) (snd (canvas_size w h)))"
  by (simp add: compressImage_def split_beta)

text \<open>
  The scaled side against the integer quotient: it is the quotient where the division
  leaves a remainder, the quotient or one less where it does not, 0 where the quotient is
  below 1, and positive where the quotient is above 1 and not exact.
\<close>

lemma scaled_side:
  fixes x y :: nat
  assumes "x \<le> y" and "0 < y" and "y < 2 ^ 32"
  defines "k \<equiv> nat \<lfloor>fl (of_nat x * fl (1024 / of_nat y))\<rfloor>"
  shows "\<not> y dvd 1024 * x \<Longrightarrow> k = (1024 * x) div y"
    and "y dvd 1024 * x \<Longrightarrow> k = (1024 * x) div y \<or> k = (1024 * x) div y - 1"
    and "1024 * x < y \<Longrightarrow> k = 0"
    and "y < 1024 * x \<Longrightarrow> \<not> y dvd 1024 * x \<Longrightarrow> 0 < k"
proof -
  have k: "k = toUnsignedLong (fl (of_nat x * fl (1024 / of_nat y)))"
    unfolding k_def by (rule scaled_trunc [OF assms(1,2), symmetric])
  note f = scaled_floor [OF assms(1-3), folded k]
  show a: "\<not> y dvd 1024 * x \<Longrightarrow> k = (1024 * x) div y" using f by blast
  show "y dvd 1024 * x \<Longrightarrow> k = (1024 * x) div y \<or> k = (1024 * x) div y - 1"
    using f by blast
  show "1024 * x < y \<Longrightarrow> k = 0" using f by auto
  show "y < 1024 * x \<Longrightarrow> \<not> y dvd 1024 * x \<Longrightarrow> 0 < k"
  proof -
    assume "y < 1024 * x" and n: "\<not> y dvd 1024 * x"
    then have "0 < (1024 * x) div y" using assms(2) by (simp add: div_greater_zero_iff)
    with a [OF n] show ?thesis by simp
  qed
qed

text \<open>
  A square image of side 1122: \<open>1024 / 1122\<close> is \<open>512 / 561\<close>, its double is
  \<open>8220474186145076 / 2 ^ 53\<close>, and 1122 times that is rounded to
  \<open>(2 ^ 53 - 1) / 2 ^ 43\<close>, just below 1024.
\<close>

lemma fl_1024_1122: "fl (512 / 561) = 8220474186145076 / 2 ^ 53"
proof -
  have "fl (512 / 561) = of_int 8220474186145076 * 2 powi (- 53)"
    by (rule fl_eqI) (simp_all add: power_int_minus_divide)
  then show ?thesis by (simp add: power_int_minus_divide)
qed

lemma fl_square_1122: "fl (1122 * fl (512 / 561)) = 9007199254740991 / 2 ^ 43"
proof -
  have "fl (1122 * (8220474186145076 / 2 ^ 53)) = of_int 9007199254740991 * 2 powi (- 43)"
    by (rule fl_eqI) (simp_all add: power_int_minus_divide)
  then show ?thesis by (simp add: fl_1024_1122 power_int_minus_divide)
qed

lemma floor_square_1122: "\<lfloor>fl (1122 * fl (512 / 561))\<rfloor> = 1023"
  by (simp add: fl_square_1122 floor_unique)

text \<open>
  An image of 4032 by 3024: \<open>1024 / 4032\<close> is \<open>16 / 63\<close>, its double is
  \<open>4575085335741456 / 2 ^ 54\<close>, and 3024 times that is rounded to 768.
\<close>

lemma fl_1024_4032: "fl (16 / 63) = 4575085335741456 / 2 ^ 54"
proof -
  have "fl (16 / 63) = of_int 4575085335741456 * 2 powi (- 54)"
    by (rule fl_eqI) (simp_all add: power_int_minus_divide)
  then show ?thesis by (simp add: power_int_minus_divide)
qed

lemma fl_side_4032: "fl (3024 * fl (16 / 63)) = 768"
proof -
  have "fl (3024 * (4575085335741456 / 2 ^ 54)) = of_int 6755399441055744 * 2 powi (- 43)"
    by (rule fl_eqI) (simp_all add: power_int_minus_divide)
  then show ?thesis by (simp add: fl_1024_4032 power_int_minus_divide)
qed

section \<open>Properties of the resolver and the history\<close>

lemma apiKey_getEnvConfig:
  "apiKey (getEnvConfig env) = spec_first_nonempty (spec_environment_keys env)"
  by (simp add: getEnvConfig_def env_lookup_def spec_first_nonempty_def spec_environment_keys_def
      or3_def truthy_def Let_def split: option.splits)

lemma spec_first_nonempty_append:
  "spec_first_nonempty (xs @ ys) =
     (if truthy (spec_first_nonempty xs) then spec_first_nonempty xs else spec_first_nonempty ys)"
  by (induction xs) (auto simp: spec_first_nonempty_def truthy_def split: list.splits)

lemma handleAnalyze_apiKey_user:
  "handleAnalyze_apiKey env s =
     (if truthy (apiKey (getEnvConfig env)) then apiKey (getEnvConfig env)
      else spec_first_nonempty (spec_user_saved_keys s))"
  by (simp add: handleAnalyze_apiKey_def spec_first_nonempty_def spec_user_saved_keys_def
      truthy_def Let_def)

lemma saveToHistory_seq_history:
  "history (saveToHistory_seq f xs s) = rev (map (\<lambda>(r, d, t). newItem r d t) xs) @ history s"
  by (induction xs arbitrary: s) (auto simp: saveToHistory_def Let_def)

lemma saveToHistory_seq_stored:
  "xs \<noteq> [] \<Longrightarrow>
     localStorage (saveToHistory_seq f xs s) ''scolio_history''
       = Some (f (history (saveToHistory_seq f xs s)))"
proof (induction xs arbitrary: s)
  case Nil
  then show ?case by simp
next
  case (Cons x xs)
  obtain r d t where x: "x = (r, d, t)" by (cases x)
  show ?case
  proof (cases "xs = []")
    case True
    then show ?thesis by (simp add: x saveToHistory_def Let_def)
  next
    case False
    then show ?thesis using Cons.IH by (simp add: x)
  qed
qed

lemma useEffect_init_loads:
  "storage ''scolio_history'' = Some v \<Longrightarrow> v \<noteq> [] \<Longrightarrow> parse v = Some h \<Longrightarrow>
     history (useEffect_init parse env (initial_state storage)) = h"
  by (simp add: useEffect_init_def initial_state_def env_get_def Let_def truthy_def)

section \<open>The claims\<close>

subsection \<open>Image Preparer\<close>

text \<open>
  C1, as the code has it. For a decoded image with dimensions below \<open>2 ^ 32\<close>, a
  context being available: if the width is greater than the height and greater than
  1024, the canvas is 1024 wide and its height is the product of the height and
  \<open>1024 / w\<close>, computed in doubles and truncated; the code does not round to the
  nearest integer. That height is \<open>1024 * h / w\<close> rounded down where the quotient is not
  an integer, and the quotient or one less where it is. The output is the JPEG of that
  canvas, and the empty string where the height is truncated to 0, which is so where
  \<open>1024 * h < w\<close>. If the height is at least the width, the square image included, and
  greater than 1024, the same holds with width and height exchanged. An image of 4032 by
  3024, whose quotient is the integer 768, gives a JPEG of 1024 by 768.
\<close>

theorem compressImage_downscale:
  "(h < w \<and> 1024 < w \<and> w < 2 ^ 32 \<longrightarrow>
      canvas_size w h = (1024, nat \<lfloor>fl (of_nat h * fl (1024 / of_nat w))\<rfloor>)
      \<and> compressImage (Decoded w h) True
          = Inr (toDataURL_data 1024 (nat \<lfloor>fl (of_nat h * fl (1024 / of_nat w))\<rfloor>))
      \<and> (\<not> w dvd 1024 * h \<longrightarrow> canvas_size w h = (1024, (1024 * h) div w))
      \<and> (w dvd 1024 * h \<longrightarrow>
           canvas_size w h = (1024, (1024 * h) div w)
           \<or> canvas_size w h = (1024, (1024 * h) div w - 1))
      \<and> (1024 * h < w \<longrightarrow> compressImage (Decoded w h) True = Inr EmptyString)
      \<and> (w < 1024 * h \<and> \<not> w dvd 1024 * h \<longrightarrow>
           compressImage (Decoded w h) True = Inr (Jpeg 1024 ((1024 * h) div w))))
   \<and> (w \<le> h \<and> 1024 < h \<and> h < 2 ^ 32 \<longrightarrow>
      canvas_size w h = (nat \<lfloor>fl (of_nat w * fl (1024 / of_nat h))\<rfloor>, 1024)
      \<and> compressImage (Decoded w h) True
          = Inr (toDataURL_data (nat \<lfloor>fl (of_nat w * fl (1024 / of_nat h))\<rfloor>) 1024)
      \<and> (\<not> h dvd 1024 * w \<longrightarrow> canvas_size w h = ((1024 * w) div h, 1024))
      \<and> (h dvd 1024 * w \<longrightarrow>
           canvas_size w h = ((1024 * w) div h, 1024)
           \<or> canvas_size w h = ((1024 * w) div h - 1, 1024))
      \<and> (1024 * w < h \<longrightarrow> compressImage (Decoded w h) True = Inr EmptyString)
      \<and> (h < 1024 * w \<and> \<not> h dvd 1024 * w \<longrightarrow>
           compressImage (Decoded w h) True = Inr (Jpeg ((1024 * w) div h) 1024)))
   \<and> canvas_size 4032 3024 = (1024, 768)
   \<and> compressImage (Decoded 4032 3024) True = Inr (Jpeg 1024 768)"
  (is "(?L \<longrightarrow> ?L1 \<and> ?L2 \<and> ?L3 \<and> ?L4 \<and> ?L5 \<and> ?L6)
       \<and> (?P \<longrightarrow> ?P1 \<and> ?P2 \<and> ?P3 \<and> ?P4 \<and> ?P5 \<and> ?P6)
       \<and> ?E1 \<and> ?E2")
proof -
  have L: "?L \<longrightarrow> ?L1 \<and> ?L2 \<and> ?L3 \<and> ?L4 \<and> ?L5 \<and> ?L6"
  proof (rule impI)
    assume ?L
    then have a: "h < w" "1024 < w" "w < 2 ^ 32" by simp_all
    have b: "h \<le> w" "0 < w" using a by simp_all
    note c = canvas_size_landscape [OF a(1,2)]
    note s = scaled_side [OF b a(3)]
    have c1: ?L1 by (rule c)
    have d: ?L2 by (simp add: compressImage_Decoded c)
    have c3: ?L3 by (simp add: c s(1))
    have c4: ?L4 using s(2) by (auto simp: c)
    have c5: ?L5 using s(3) by (simp add: d toDataURL_data_def)
    have c6: ?L6
    proof (intro impI, elim conjE)
      assume g: "w < 1024 * h" and n: "\<not> w dvd 1024 * h"
      from s(4) [OF g n] s(1) [OF n] have "0 < (1024 * h) div w" by simp
      then show "compressImage (Decoded w h) True = Inr (Jpeg 1024 ((1024 * h) div w))"
        by (simp add: d s(1) [OF n] toDataURL_data_def)
  qed
  show "?L1 \<and> ?L2 \<and> ?L3 \<and> ?L4 \<and> ?L5 \<and> ?L6"
    by (rule conjI [OF c1 conjI [OF d conjI [OF c3 conjI [OF c4 conjI [OF c5 c6]]]]])
  qed
  have P: "?P \<longrightarrow> ?P1 \<and> ?P2 \<and> ?P3 \<and> ?P4 \<and> ?P5 \<and> ?P6"
  proof (rule impI)
    assume ?P
    then have a: "w \<le> h" "1024 < h" "h < 2 ^ 32" by simp_all
    have b: "0 < h" using a by simp
    note c = canvas_size_portrait [OF a(1,2)]
    note s = scaled_side [OF a(1) b a(3)]
    have c1: ?P1 by (rule c)
    have d: ?P2 by (simp add: compressImage_Decoded c)
    have c3: ?P3 by (simp add: c s(1))
    have c4: ?P4 using s(2) by (auto simp: c)
    have c5: ?P5 using s(3) by (simp add: d toDataURL_data_def)
    have c6: ?P6
    proof (intro impI, elim conjE)
      assume g: "h < 1024 * w" and n: "\<not> h dvd 1024 * w"
      from s(4) [OF g n] s(1) [OF n] have "0 < (1024 * w) div h" by simp
      then show "compressImage (Decoded w h) True = Inr (Jpeg ((1024 * w) div h) 1024)"
        by (simp add: d s(1) [OF n] toDataURL_data_def)
  qed
  show "?P1 \<and> ?P2 \<and> ?P3 \<and> ?P4 \<and> ?P5 \<and> ?P6"
    by (rule conjI [OF c1 conjI [OF d conjI [OF c3 conjI [OF c4 conjI [OF c5 c6]]]]])
  qed
  have E1: ?E1
    using canvas_size_landscape [of 3024 4032] by (simp add: fl_side_4032)
  have E2: ?E2
    by (simp add: compressImage_Decoded E1 toDataURL_data_def)
  show ?thesis by (rule conjI [OF L conjI [OF P conjI [OF E1 E2]]])
qed

text \<open>
  The theorem at 3000 by 2001, where the quotient is not exact; at 4032 by 3024, where it
  is exact and the truncated product is the quotient 768; at 2000 by 1, where the height
  is truncated to 0; and at the portrait images 2001 by 3000 and 1 by 2000.
\<close>

theorem compressImage_downscale_witness:
  "(2001::nat) < 3000 \<and> (1024::nat) < 3000 \<and> (3000::nat) < 2 ^ 32
   \<and> \<not> (3000::nat) dvd 1024 * 2001
   \<and> canvas_size 3000 2001 = (1024, 683)
   \<and> compressImage (Decoded 3000 2001) True = Inr (Jpeg 1024 683)
   \<and> (4032::nat) dvd 1024 * 3024
   \<and> canvas_size 4032 3024 = (1024, 768)
   \<and> compressImage (Decoded 4032 3024) True = Inr (Jpeg 1024 768)
   \<and> (1024::nat) * 1 < 2000
   \<and> compressImage (Decoded 2000 1) True = Inr EmptyString
   \<and> canvas_size 2001 3000 = (683, 1024)
   \<and> compressImage (Decoded 2001 3000) True = Inr (Jpeg 683 1024)
   \<and> compressImage (Decoded 1 2000) True = Inr EmptyString"
proof -
  have a: "(2001::nat) < 3000 \<and> (1024::nat) < 3000 \<and> (3000::nat) < 2 ^ 32" by simp
  have a': "(2001::nat) \<le> 3000 \<and> (1024::nat) < 3000 \<and> (3000::nat) < 2 ^ 32" by simp
  have n: "\<not> (3000::nat) dvd 1024 * 2001" by simp
  have g: "(3000::nat) < 1024 * 2001" by simp
  have d: "(1024 * 2001) div 3000 = (683::nat)" by simp
  note L = compressImage_downscale [of 2001 3000, THEN conjunct1, THEN mp, OF a]
  note L3 = L [THEN conjunct2, THEN conjunct2, THEN conjunct1, THEN mp, OF n]
  note L6 = L [THEN conjunct2, THEN conjunct2, THEN conjunct2, THEN conjunct2, THEN conjunct2,
      THEN mp, OF conjI [OF g n]]
  have l: "canvas_size 3000 2001 = (1024, 683)
      \<and> compressImage (Decoded 3000 2001) True = Inr (Jpeg 1024 683)"
    using L3 L6 by (simp only: d)
  note P = compressImage_downscale [of 3000 2001, THEN conjunct2, THEN conjunct1, THEN mp, OF a']
  note P3 = P [THEN conjunct2, THEN conjunct2, THEN conjunct1, THEN mp, OF n]
  note P6 = P [THEN conjunct2, THEN conjunct2, THEN conjunct2, THEN conjunct2, THEN conjunct2,
      THEN mp, OF conjI [OF g n]]
  have p: "canvas_size 2001 3000 = (683, 1024)
      \<and> compressImage (Decoded 2001 3000) True = Inr (Jpeg 683 1024)"
    using P3 P6 by (simp only: d)
  have b: "(3024::nat) < 4032 \<and> (1024::nat) < 4032 \<and> (4032::nat) < 2 ^ 32" by simp
  have x: "(4032::nat) dvd 1024 * 3024" by simp
  have v: "nat \<lfloor>fl (of_nat 3024 * fl (1024 / of_nat 4032))\<rfloor> = 768"
    by (simp add: fl_side_4032)
  note E = compressImage_downscale [of 3024 4032, THEN conjunct1, THEN mp, OF b]
  note E1 = E [THEN conjunct1]
  note E2 = E [THEN conjunct2, THEN conjunct1]
  have t768: "toDataURL_data 1024 768 = Jpeg 1024 768" by (simp add: toDataURL_data_def)
  have e: "canvas_size 4032 3024 = (1024, 768)
      \<and> compressImage (Decoded 4032 3024) True = Inr (Jpeg 1024 768)"
    using E1 E2 by (simp only: v t768)
  have c: "(1::nat) < 2000 \<and> (1024::nat) < 2000 \<and> (2000::nat) < 2 ^ 32" by simp
  have c': "(1::nat) \<le> 2000 \<and> (1024::nat) < 2000 \<and> (2000::nat) < 2 ^ 32" by simp
  have t: "(1024::nat) * 1 < 2000" by simp
  note z = compressImage_downscale [of 1 2000, THEN conjunct1, THEN mp, OF c,
      THEN conjunct2, THEN conjunct2, THEN conjunct2, THEN conjunct2, THEN conjunct1,
      THEN mp, OF t]
  note z' = compressImage_downscale [of 2000 1, THEN conjunct2, THEN conjunct1, THEN mp, OF c',
      THEN conjunct2, THEN conjunct2, THEN conjunct2, THEN conjunct2, THEN conjunct1,
      THEN mp, OF t]
  from a n l x e t z p z' show ?thesis by (intro conjI) simp_all
qed

text \<open>
  C1 as stated fails. An image of 3000 by 2000 has its width at least its height and
  above 1024; \<open>2000 * 1024 / 3000\<close> rounds to 683, and the output is 682 high. A square
  image of side 1122 has its width at least its height and above 1024, and the output is
  1023 wide.
\<close>

theorem compressImage_round_counterexample:
  "(2000::nat) \<le> 3000 \<and> (1024::nat) < 3000
   \<and> round (2000 * 1024 / 3000 :: rat) = 683
   \<and> compressImage (Decoded 3000 2000) True = Inr (Jpeg 1024 682)
   \<and> (1122::nat) \<le> 1122 \<and> (1024::nat) < 1122
   \<and> compressImage (Decoded 1122 1122) True = Inr (Jpeg 1023 1024)"
proof -
  have r: "round (2000 * 1024 / 3000 :: rat) = 683" by (simp add: round_def floor_unique)
  have "nat \<lfloor>fl (of_nat 2000 * fl (1024 / of_nat 3000))\<rfloor> = (1024 * 2000) div 3000"
    by (rule scaled_side(1)) simp_all
  then have c: "canvas_size 3000 2000 = (1024, 682)"
    using canvas_size_landscape [of 2000 3000] by simp
  have s: "canvas_size 1122 1122 = (1023, 1024)"
    using canvas_size_portrait [of 1122 1122] by (simp add: floor_square_1122)
  from r show ?thesis
    by (simp add: compressImage_Decoded c s toDataURL_data_def)
qed

text \<open>
  C2. For a decoded image whose width and height are both at most 1024, a context being
  available, the canvas has the dimensions of the image and the output is the encoding of
  that canvas: a JPEG with the dimensions of the image, for an image that has pixels.
\<close>

theorem compressImage_no_upscale:
  "w \<le> 1024 \<Longrightarrow> h \<le> 1024 \<Longrightarrow>
     canvas_size w h = (w, h)
     \<and> compressImage (Decoded w h) True = Inr (toDataURL_data w h)
     \<and> (0 < w \<and> 0 < h \<longrightarrow> compressImage (Decoded w h) True = Inr (Jpeg w h))"
  by (simp add: compressImage_Decoded canvas_size_within toDataURL_data_def)

theorem compressImage_no_upscale_witness:
  "(800::nat) \<le> 1024 \<and> (600::nat) \<le> 1024 \<and> (0::nat) < 800 \<and> (0::nat) < 600
   \<and> canvas_size 800 600 = (800, 600)
   \<and> compressImage (Decoded 800 600) True = Inr (Jpeg 800 600)
   \<and> canvas_size 1024 1024 = (1024, 1024)
   \<and> compressImage (Decoded 1024 1024) True = Inr (Jpeg 1024 1024)"
proof -
  have a: "(800::nat) \<le> 1024" "(600::nat) \<le> 1024" "(0::nat) < 800 \<and> (0::nat) < 600" by simp_all
  have b: "(1024::nat) \<le> 1024" "(0::nat) < 1024 \<and> (0::nat) < 1024" by simp_all
  from compressImage_no_upscale [OF a(1,2)] a(3)
  have c: "canvas_size 800 600 = (800, 600)
      \<and> compressImage (Decoded 800 600) True = Inr (Jpeg 800 600)" by blast
  from compressImage_no_upscale [OF b(1) b(1)] b(2)
  have d: "canvas_size 1024 1024 = (1024, 1024)
      \<and> compressImage (Decoded 1024 1024) True = Inr (Jpeg 1024 1024)" by blast
  from a c d show ?thesis by blast
qed

subsection \<open>Rendering of the angle\<close>

text \<open>
  C3, as the code has it. For every analysis result whose \<open>cobbAngle\<close> is the sentinel
  \<open>- 1\<close>, whatever its classification, the result view renders the placeholder
  \<open>--\<close> (followed by the degree sign) and a history entry renders \<open>--\<close>, not a
  number. Both views test the angle; neither reads the classification.
\<close>

theorem placeholder_for_sentinel:
  "(cobbAngle r = - 1 \<longrightarrow> resultCard_angle r = [Lit ''--'', Lit degree_sign])
   \<and> (cobbAngle item = - 1 \<longrightarrow> HistoryModal_angle item = [Lit ''--''])"
  by (simp add: resultCard_angle_def HistoryModal_angle_def)

theorem placeholder_for_sentinel_witness:
  "cobbAngle \<lparr>cobbAngle = - 1, classification = ''Inconclusive'', date = None\<rparr> = - 1
   \<and> resultCard_angle \<lparr>cobbAngle = - 1, classification = ''Inconclusive'', date = None\<rparr>
       = [Lit ''--'', Lit degree_sign]
   \<and> HistoryModal_angle
        (newItem \<lparr>cobbAngle = - 1, classification = ''Inconclusive'', date = None\<rparr> ''2025. 1. 1.'' 0)
       = [Lit ''--'']"
proof -
  let ?r = "\<lparr>cobbAngle = - 1, classification = ''Inconclusive'', date = None\<rparr>"
  have a: "cobbAngle ?r = - 1" by simp
  have b: "cobbAngle (newItem ?r ''2025. 1. 1.'' 0) = - 1" by (simp add: newItem_def)
  from placeholder_for_sentinel [of ?r "newItem ?r ''2025. 1. 1.'' 0"] a b
  show ?thesis by simp
qed

text \<open>
  C3 as stated fails. The answer of the model is stored as the result without a check; an
  answer with the classification \<open>Inconclusive\<close> and the angle 12 becomes the result,
  and both views render a number for it.
\<close>

theorem inconclusive_numeric_counterexample:
  "classification \<lparr>cobbAngle = 12, classification = ''Inconclusive'', date = None\<rparr> = ''Inconclusive''
   \<and> cobbAngle \<lparr>cobbAngle = 12, classification = ''Inconclusive'', date = None\<rparr> \<noteq> - 1
   \<and> result (handleAnalyze \<lparr>import_meta_env = None, process_env = None\<rparr>
        (\<lambda>k. Returns \<lparr>cobbAngle = 12, classification = ''Inconclusive'', date = None\<rparr>)
        (\<lambda>h. []) ''2025. 1. 1.'' 0
        ((initial_state Map.empty)\<lparr>imageFile := True, manualApiKey := ''AIzaSyTESTKEY1234''\<rparr>))
      = Some \<lparr>cobbAngle = 12, classification = ''Inconclusive'', date = None\<rparr>
   \<and> resultCard_angle \<lparr>cobbAngle = 12, classification = ''Inconclusive'', date = None\<rparr>
      = [ToFixed1 12, Lit degree_sign]
   \<and> HistoryModal_angle
        (newItem \<lparr>cobbAngle = 12, classification = ''Inconclusive'', date = None\<rparr> ''2025. 1. 1.'' 0)
      = [NumToString 12, Lit degree_sign]"
  by (simp add: resultCard_angle_def HistoryModal_angle_def newItem_def handleAnalyze_def
      handleAnalyze_apiKey_def getEnvConfig_def env_lookup_def truthy_def initial_state_def
      saveToHistory_def Let_def)

subsection \<open>Credential Resolver\<close>

text \<open>
  C4. The key used at analysis time is the first non-empty one among the keys of the
  environment under their aliases and then the key saved by the user. So the
  environment's key wins when there is one, and the saved key is used when there is
  none. With an image selected and no key at all, \<open>handleAnalyze\<close> only opens the
  settings panel and sets the message that a key is needed; with a key, the analysis
  runs with that key.
\<close>

theorem credential_resolution_order:
  "handleAnalyze_apiKey env s
     = spec_first_nonempty (spec_environment_keys env @ spec_user_saved_keys s)
   \<and> (truthy (spec_first_nonempty (spec_environment_keys env)) \<longrightarrow>
        handleAnalyze_apiKey env s = spec_first_nonempty (spec_environment_keys env))
   \<and> (\<not> truthy (spec_first_nonempty (spec_environment_keys env)) \<longrightarrow>
        handleAnalyze_apiKey env s = spec_first_nonempty (spec_user_saved_keys s))
   \<and> (imageFile s \<and> \<not> truthy (spec_first_nonempty (spec_environment_keys env @ spec_user_saved_keys s)) \<longrightarrow>
        handleAnalyze env try_body stringify today now s
          = s\<lparr>isSettingsModalOpen := True, error := ErrApiKeyRequired\<rparr>)
   \<and> (imageFile s \<and> truthy (spec_first_nonempty (spec_environment_keys env @ spec_user_saved_keys s))
        \<and> try_body (spec_first_nonempty (spec_environment_keys env @ spec_user_saved_keys s)) = Returns r \<longrightarrow>
        result (handleAnalyze env try_body stringify today now s) = Some r)"
proof -
  have k: "handleAnalyze_apiKey env s
     = spec_first_nonempty (spec_environment_keys env @ spec_user_saved_keys s)"
    by (simp add: handleAnalyze_apiKey_user apiKey_getEnvConfig spec_first_nonempty_append)
  have e: "truthy (spec_first_nonempty (spec_environment_keys env)) \<longrightarrow>
        handleAnalyze_apiKey env s = spec_first_nonempty (spec_environment_keys env)"
    by (simp add: handleAnalyze_apiKey_user apiKey_getEnvConfig)
  have u: "\<not> truthy (spec_first_nonempty (spec_environment_keys env)) \<longrightarrow>
        handleAnalyze_apiKey env s = spec_first_nonempty (spec_user_saved_keys s)"
    by (simp add: handleAnalyze_apiKey_user apiKey_getEnvConfig)
  have b: "imageFile s \<and> \<not> truthy (spec_first_nonempty (spec_environment_keys env @ spec_user_saved_keys s)) \<longrightarrow>
        handleAnalyze env try_body stringify today now s
          = s\<lparr>isSettingsModalOpen := True, error := ErrApiKeyRequired\<rparr>"
    by (simp add: handleAnalyze_def k [symmetric])
  have p: "imageFile s \<and> truthy (spec_first_nonempty (spec_environment_keys env @ spec_user_saved_keys s))
        \<and> try_body (spec_first_nonempty (spec_environment_keys env @ spec_user_saved_keys s)) = Returns r \<longrightarrow>
        result (handleAnalyze env try_body stringify today now s) = Some r"
    by (simp add: handleAnalyze_def k [symmetric] saveToHistory_def Let_def)
  from k e u b p show ?thesis by blast
qed

theorem credential_resolution_order_witness:
  "handleAnalyze_apiKey \<lparr>import_meta_env = None, process_env = None\<rparr>
     ((initial_state [''gemini_api_key'' \<mapsto> ''AIzaSyUSERKEY123''])\<lparr>imageFile := True\<rparr>)
     = ''AIzaSyUSERKEY123''
   \<and> handleAnalyze_apiKey
       \<lparr>import_meta_env = None, process_env = Some [''NEXT_PUBLIC_API_KEY'' \<mapsto> ''AIzaSyENVKEY1234'']\<rparr>
       ((initial_state [''gemini_api_key'' \<mapsto> ''AIzaSyUSERKEY123''])\<lparr>imageFile := True\<rparr>)
     = ''AIzaSyENVKEY1234''
   \<and> handleAnalyze \<lparr>import_meta_env = None, process_env = None\<rparr>
         (\<lambda>k. Returns \<lparr>cobbAngle = 12, classification = ''Mild'', date = None\<rparr>) (\<lambda>h. []) ''2025-01-01'' 0
         ((initial_state Map.empty)\<lparr>imageFile := True\<rparr>)
     = (initial_state Map.empty)\<lparr>imageFile := True, isSettingsModalOpen := True, error := ErrApiKeyRequired\<rparr>
   \<and> result (handleAnalyze \<lparr>import_meta_env = None, process_env = None\<rparr>
         (\<lambda>k. Returns \<lparr>cobbAngle = 12, classification = ''Mild'', date = None\<rparr>) (\<lambda>h. []) ''2025-01-01'' 0
         ((initial_state [''gemini_api_key'' \<mapsto> ''AIzaSyUSERKEY123''])\<lparr>imageFile := True\<rparr>))
     = Some \<lparr>cobbAngle = 12, classification = ''Mild'', date = None\<rparr>"
proof -
  let ?none = "\<lparr>import_meta_env = None, process_env = None\<rparr>"
  let ?both = "\<lparr>import_meta_env = None, process_env = Some [''NEXT_PUBLIC_API_KEY'' \<mapsto> ''AIzaSyENVKEY1234'']\<rparr>"
  let ?user = "(initial_state [''gemini_api_key'' \<mapsto> ''AIzaSyUSERKEY123''])\<lparr>imageFile := True\<rparr>"
  let ?empty = "(initial_state Map.empty)\<lparr>imageFile := True\<rparr>"
  let ?tb = "\<lambda>k::string. Returns \<lparr>cobbAngle = 12, classification = ''Mild'', date = None\<rparr>"
  have e1: "\<not> truthy (spec_first_nonempty (spec_environment_keys ?none))"
    by (simp add: spec_environment_keys_def spec_first_nonempty_def truthy_def)
  have u1: "spec_first_nonempty (spec_user_saved_keys ?user) = ''AIzaSyUSERKEY123''"
    by (simp add: spec_user_saved_keys_def spec_first_nonempty_def truthy_def initial_state_def env_get_def)
  have e2: "spec_first_nonempty (spec_environment_keys ?both) = ''AIzaSyENVKEY1234''"
    by (simp add: spec_environment_keys_def spec_first_nonempty_def truthy_def env_get_def)
  have e2t: "truthy (spec_first_nonempty (spec_environment_keys ?both))"
    by (simp add: e2 truthy_def)
  have n3: "imageFile ?empty \<and> \<not> truthy (spec_first_nonempty (spec_environment_keys ?none @ spec_user_saved_keys ?empty))"
    by (simp add: spec_environment_keys_def spec_user_saved_keys_def spec_first_nonempty_def truthy_def
        initial_state_def env_get_def)
  have p4: "imageFile ?user \<and> truthy (spec_first_nonempty (spec_environment_keys ?none @ spec_user_saved_keys ?user))
      \<and> ?tb (spec_first_nonempty (spec_environment_keys ?none @ spec_user_saved_keys ?user))
          = Returns \<lparr>cobbAngle = 12, classification = ''Mild'', date = None\<rparr>"
    by (simp add: spec_environment_keys_def spec_user_saved_keys_def spec_first_nonempty_def truthy_def
        initial_state_def env_get_def)
  have a: "handleAnalyze_apiKey ?none ?user = ''AIzaSyUSERKEY123''"
    proof -
    from credential_resolution_order [of ?none ?user ?tb "\<lambda>h. []" "''2025-01-01''" 0 undefined] e1
    have "handleAnalyze_apiKey ?none ?user = spec_first_nonempty (spec_user_saved_keys ?user)" by blast
    with u1 show ?thesis by simp
  qed
  have b: "handleAnalyze_apiKey ?both ?user = ''AIzaSyENVKEY1234''"
    proof -
    from credential_resolution_order [of ?both ?user ?tb "\<lambda>h. []" "''2025-01-01''" 0 undefined] e2t
    have "handleAnalyze_apiKey ?both ?user = spec_first_nonempty (spec_environment_keys ?both)" by blast
    with e2 show ?thesis by simp
  qed
  have c: "handleAnalyze ?none ?tb (\<lambda>h. []) ''2025-01-01'' 0 ?empty
     = ?empty\<lparr>isSettingsModalOpen := True, error := ErrApiKeyRequired\<rparr>"
    using credential_resolution_order [of ?none ?empty ?tb "\<lambda>h. []" "''2025-01-01''" 0 undefined] n3 by blast
  have d: "result (handleAnalyze ?none ?tb (\<lambda>h. []) ''2025-01-01'' 0 ?user)
     = Some \<lparr>cobbAngle = 12, classification = ''Mild'', date = None\<rparr>"
    using credential_resolution_order [of ?none ?user ?tb "\<lambda>h. []" "''2025-01-01''" 0 "\<lparr>cobbAngle = 12, classification = ''Mild'', date = None\<rparr>"] p4 by blast
  from a b c d show ?thesis by simp
qed

text \<open>
  C5. \<open>handleSaveApiKey\<close> on a candidate whose trimmed length is at most 10 only
  alerts that the key is invalid; the stored key and the key of the state stay as they
  were. On a candidate whose trimmed length is above 10 it stores the trimmed key over
  any previous one and sets it in the state, and a resolution that follows returns it
  unless the environment has a key.
\<close>

theorem handleSaveApiKey_validates:
  "(length (trim key) \<le> 10 \<longrightarrow>
      handleSaveApiKey key s = s\<lparr>alerts := alerts s @ [AlertInvalidKey]\<rparr>
      \<and> localStorage (handleSaveApiKey key s) = localStorage s
      \<and> manualApiKey (handleSaveApiKey key s) = manualApiKey s)
   \<and> (length (trim key) > 10 \<longrightarrow>
      localStorage (handleSaveApiKey key s) = (localStorage s)(''gemini_api_key'' \<mapsto> trim key)
      \<and> manualApiKey (handleSaveApiKey key s) = trim key
      \<and> alerts (handleSaveApiKey key s) = alerts s @ [AlertKeySaved]
      \<and> handleAnalyze_apiKey env (handleSaveApiKey key s)
          = (if truthy (apiKey (getEnvConfig env)) then apiKey (getEnvConfig env) else trim key))"
  by (auto simp: handleSaveApiKey_def Let_def handleAnalyze_apiKey_def truthy_def)

theorem handleSaveApiKey_validates_witness:
  "length (trim ''short'') \<le> 10
   \<and> localStorage (handleSaveApiKey ''short'' (initial_state [''gemini_api_key'' \<mapsto> ''AIzaSyOLDKEY00001'']))
       ''gemini_api_key'' = Some ''AIzaSyOLDKEY00001''
   \<and> alerts (handleSaveApiKey ''short'' (initial_state [''gemini_api_key'' \<mapsto> ''AIzaSyOLDKEY00001'']))
       = [AlertInvalidKey]
   \<and> length (trim ''  AIzaSyTESTKEY1234 '') > 10
   \<and> localStorage (handleSaveApiKey ''  AIzaSyTESTKEY1234 '' (initial_state [''gemini_api_key'' \<mapsto> ''AIzaSyOLDKEY00001'']))
       ''gemini_api_key'' = Some ''AIzaSyTESTKEY1234''
   \<and> handleAnalyze_apiKey \<lparr>import_meta_env = None, process_env = None\<rparr>
       (handleSaveApiKey ''  AIzaSyTESTKEY1234 '' (initial_state [''gemini_api_key'' \<mapsto> ''AIzaSyOLDKEY00001'']))
       = ''AIzaSyTESTKEY1234''"
proof -
  let ?s = "initial_state [''gemini_api_key'' \<mapsto> ''AIzaSyOLDKEY00001'']"
  let ?none = "\<lparr>import_meta_env = None, process_env = None\<rparr>"
  have t1: "trim ''short'' = ''short''" by code_simp
  have t2: "trim ''  AIzaSyTESTKEY1234 '' = ''AIzaSyTESTKEY1234''" by code_simp
  have l1: "length (trim ''short'') \<le> 10" by (simp add: t1)
  have l2: "length (trim ''  AIzaSyTESTKEY1234 '') > 10" by (simp add: t2)
  have nk: "\<not> truthy (apiKey (getEnvConfig ?none))"
    by (simp add: getEnvConfig_def env_lookup_def truthy_def)
  have a: "localStorage (handleSaveApiKey ''short'' ?s) ''gemini_api_key'' = Some ''AIzaSyOLDKEY00001''"
    using handleSaveApiKey_validates [of "''short''" ?s] l1 by (simp add: initial_state_def)
  have b: "alerts (handleSaveApiKey ''short'' ?s) = [AlertInvalidKey]"
    using handleSaveApiKey_validates [of "''short''" ?s] l1 by (simp add: initial_state_def)
  have c: "localStorage (handleSaveApiKey ''  AIzaSyTESTKEY1234 '' ?s) ''gemini_api_key''
       = Some ''AIzaSyTESTKEY1234''"
    using handleSaveApiKey_validates [of "''  AIzaSyTESTKEY1234 ''" ?s] l2 by (simp add: t2)
  have d: "handleAnalyze_apiKey ?none (handleSaveApiKey ''  AIzaSyTESTKEY1234 '' ?s)
       = ''AIzaSyTESTKEY1234''"
    using handleSaveApiKey_validates [of "''  AIzaSyTESTKEY1234 ''" ?s ?none] l2 nk by (simp add: t2)
  from l1 a b l2 c d show ?thesis by blast
qed

subsection \<open>Result Interpreter\<close>

text \<open>
  C6. The class and the text depend on the classification only through its lower-case
  form, so every letter case of a classification gives what the classification gives:
  \<open>HIGH-RISK\<close> gives the class and text of \<open>High-Risk\<close>. The four classifications
  have their own text. A string whose lower-case form is none of the four, such as
  \<open>foo\<close>, gives the empty class and the default text. Every string gives one of the
  four classes: the function has no failing case.
\<close>

theorem result_interpreter_total:
  "(toLowerCase c = toLowerCase c' \<longrightarrow>
      getResultCardClassName c = getResultCardClassName c'
      \<and> getResultContent c = getResultContent c')
   \<and> (toLowerCase c \<notin> {''normal'', ''mild'', ''high-risk'', ''inconclusive''} \<longrightarrow>
      getResultCardClassName c = '''' \<and> getResultContent c = ContentDefault)
   \<and> getResultCardClassName c \<in> {''normal'', ''mild'', ''high-risk'', ''''}
   \<and> getResultCardClassName ''Normal'' = ''normal''
   \<and> getResultContent ''Normal'' = ContentNormal
   \<and> getResultCardClassName ''Mild'' = ''mild''
   \<and> getResultContent ''Mild'' = ContentMild
   \<and> getResultCardClassName ''High-Risk'' = ''high-risk''
   \<and> getResultContent ''High-Risk'' = ContentHighRisk
   \<and> getResultContent ''Inconclusive'' = ContentInconclusive
   \<and> getResultCardClassName ''HIGH-RISK'' = getResultCardClassName ''High-Risk''
   \<and> getResultContent ''HIGH-RISK'' = getResultContent ''High-Risk''
   \<and> getResultCardClassName ''foo'' = ''''
   \<and> getResultContent ''foo'' = ContentDefault"
proof -
  have a: "toLowerCase c = toLowerCase c' \<longrightarrow>
      getResultCardClassName c = getResultCardClassName c'
      \<and> getResultContent c = getResultContent c'"
    by (simp add: getResultCardClassName_def getResultContent_def)
  have b: "toLowerCase c \<notin> {''normal'', ''mild'', ''high-risk'', ''inconclusive''} \<longrightarrow>
      getResultCardClassName c = '''' \<and> getResultContent c = ContentDefault"
    by (simp add: getResultCardClassName_def getResultContent_def)
  have t: "getResultCardClassName c \<in> {''normal'', ''mild'', ''high-risk'', ''''}"
    by (simp add: getResultCardClassName_def Let_def)
  have n: "getResultCardClassName ''Normal'' = ''normal''" by code_simp
  have n': "getResultContent ''Normal'' = ContentNormal" by code_simp
  have m: "getResultCardClassName ''Mild'' = ''mild''" by code_simp
  have m': "getResultContent ''Mild'' = ContentMild" by code_simp
  have h: "getResultCardClassName ''High-Risk'' = ''high-risk''" by code_simp
  have h': "getResultContent ''High-Risk'' = ContentHighRisk" by code_simp
  have i': "getResultContent ''Inconclusive'' = ContentInconclusive" by code_simp
  have u: "getResultCardClassName ''HIGH-RISK'' = ''high-risk''" by code_simp
  have u': "getResultContent ''HIGH-RISK'' = ContentHighRisk" by code_simp
  have f: "getResultCardClassName ''foo'' = ''''" by code_simp
  have f': "getResultContent ''foo'' = ContentDefault" by code_simp
  from a b t n n' m m' h h' i' u u' f f' show ?thesis by simp
qed

theorem result_interpreter_total_witness:
  "toLowerCase ''mILD'' = toLowerCase ''Mild''
   \<and> getResultCardClassName ''mILD'' = getResultCardClassName ''Mild''
   \<and> getResultContent ''mILD'' = getResultContent ''Mild''
   \<and> toLowerCase ''High Risk'' \<notin> {''normal'', ''mild'', ''high-risk'', ''inconclusive''}
   \<and> getResultCardClassName ''High Risk'' = ''''
   \<and> getResultContent ''High Risk'' = ContentDefault"
proof -
  have l: "toLowerCase ''mILD'' = toLowerCase ''Mild''" by code_simp
  have k: "toLowerCase ''High Risk'' = ''high risk''" by code_simp
  have v: "toLowerCase ''High Risk'' \<notin> {''normal'', ''mild'', ''high-risk'', ''inconclusive''}"
    by (simp add: k)
  from result_interpreter_total [of "''mILD''" "''Mild''"] l
  have p: "getResultCardClassName ''mILD'' = getResultCardClassName ''Mild''
      \<and> getResultContent ''mILD'' = getResultContent ''Mild''" by blast
  from result_interpreter_total [of "''High Risk''" "''High Risk''"] v
  have q: "getResultCardClassName ''High Risk'' = '''' \<and> getResultContent ''High Risk'' = ContentDefault"
    by blast
  from l p v q show ?thesis by blast
qed

text \<open>
  C10. For \<open>Inconclusive\<close> in any letter case, \<open>getResultCardClassName\<close> returns the
  class \<open>high-risk\<close>, the one it returns for \<open>High-Risk\<close>, and not the empty class
  of the default.
\<close>

theorem inconclusive_styled_high_risk:
  "toLowerCase c = toLowerCase ''Inconclusive'' \<Longrightarrow>
     getResultCardClassName c = ''high-risk''
     \<and> getResultCardClassName c = getResultCardClassName ''High-Risk''
     \<and> getResultCardClassName c \<noteq> ''''"
proof -
  assume c: "toLowerCase c = toLowerCase ''Inconclusive''"
  have i: "toLowerCase ''Inconclusive'' = ''inconclusive''" by code_simp
  have h: "getResultCardClassName ''High-Risk'' = ''high-risk''" by code_simp
  have "getResultCardClassName c = ''high-risk''"
    using c by (simp add: i getResultCardClassName_def)
  with h show ?thesis by simp
qed

theorem inconclusive_styled_high_risk_witness:
  "toLowerCase ''INCONCLUSIVE'' = toLowerCase ''Inconclusive''
   \<and> getResultCardClassName ''INCONCLUSIVE'' = ''high-risk''
   \<and> getResultCardClassName ''Inconclusive'' = ''high-risk''
   \<and> getResultCardClassName ''INCONCLUSIVE'' = getResultCardClassName ''High-Risk''"
proof -
  have a: "toLowerCase ''INCONCLUSIVE'' = toLowerCase ''Inconclusive''" by code_simp
  have b: "toLowerCase ''Inconclusive'' = toLowerCase ''Inconclusive''" by simp
  from inconclusive_styled_high_risk [OF a] inconclusive_styled_high_risk [OF b] a
  show ?thesis by blast
qed

subsection \<open>History Store\<close>

text \<open>
  C7. An append puts one new record in front of the history: the result with the date
  and the timestamp read from the clock; and it writes the whole new sequence to the
  storage. A sequence of appends from any state leaves the records in front of the old
  history, the last appended first, and the storage holds that whole sequence. Three
  appends to an empty history give a stored list of three records, the most recent
  first.
\<close>

theorem saveToHistory_prepends:
  "history (saveToHistory f d t r s) = newItem r d t # history s
   \<and> localStorage (saveToHistory f d t r s) ''scolio_history''
       = Some (f (newItem r d t # history s))
   \<and> date (newItem r d t) = Some d \<and> timestamp (newItem r d t) = t
   \<and> cobbAngle (newItem r d t) = cobbAngle r
   \<and> classification (newItem r d t) = classification r
   \<and> history (saveToHistory_seq f xs s)
       = rev (map (\<lambda>(r, d, t). newItem r d t) xs) @ history s
   \<and> (xs \<noteq> [] \<longrightarrow>
        localStorage (saveToHistory_seq f xs s) ''scolio_history''
          = Some (f (rev (map (\<lambda>(r, d, t). newItem r d t) xs) @ history s)))
   \<and> (history s = [] \<longrightarrow>
        history (saveToHistory_seq f [(r1, d1, t1), (r2, d2, t2), (r3, d3, t3)] s)
          = [newItem r3 d3 t3, newItem r2 d2 t2, newItem r1 d1 t1]
        \<and> length (history (saveToHistory_seq f [(r1, d1, t1), (r2, d2, t2), (r3, d3, t3)] s)) = 3
        \<and> localStorage (saveToHistory_seq f [(r1, d1, t1), (r2, d2, t2), (r3, d3, t3)] s)
            ''scolio_history''
          = Some (f [newItem r3 d3 t3, newItem r2 d2 t2, newItem r1 d1 t1]))"
proof -
  have a: "history (saveToHistory f d t r s) = newItem r d t # history s"
    by (simp add: saveToHistory_def Let_def)
  have b: "localStorage (saveToHistory f d t r s) ''scolio_history''
       = Some (f (newItem r d t # history s))"
    by (simp add: saveToHistory_def Let_def)
  have c: "date (newItem r d t) = Some d \<and> timestamp (newItem r d t) = t
     \<and> cobbAngle (newItem r d t) = cobbAngle r
     \<and> classification (newItem r d t) = classification r"
    by (simp add: newItem_def)
  have e: "xs \<noteq> [] \<longrightarrow>
        localStorage (saveToHistory_seq f xs s) ''scolio_history''
          = Some (f (rev (map (\<lambda>(r, d, t). newItem r d t) xs) @ history s))"
    using saveToHistory_seq_stored [of xs f s] by (simp add: saveToHistory_seq_history)
  have g: "history s = [] \<longrightarrow>
        history (saveToHistory_seq f [(r1, d1, t1), (r2, d2, t2), (r3, d3, t3)] s)
          = [newItem r3 d3 t3, newItem r2 d2 t2, newItem r1 d1 t1]
        \<and> length (history (saveToHistory_seq f [(r1, d1, t1), (r2, d2, t2), (r3, d3, t3)] s)) = 3
        \<and> localStorage (saveToHistory_seq f [(r1, d1, t1), (r2, d2, t2), (r3, d3, t3)] s)
            ''scolio_history''
          = Some (f [newItem r3 d3 t3, newItem r2 d2 t2, newItem r1 d1 t1])"
    by (simp add: saveToHistory_def Let_def)
  from a b c saveToHistory_seq_history [of f xs s] e g show ?thesis by blast
qed

theorem saveToHistory_prepends_witness:
  "history (initial_state Map.empty) = []
   \<and> map classification
       (history (saveToHistory_seq (\<lambda>h. concat (map classification h))
          [(\<lparr>cobbAngle = 5, classification = ''Normal'', date = None\<rparr>, ''2025. 1. 1.'', 100),
           (\<lparr>cobbAngle = 14, classification = ''Mild'', date = None\<rparr>, ''2025. 1. 2.'', 200),
           (\<lparr>cobbAngle = 30, classification = ''High-Risk'', date = None\<rparr>, ''2025. 1. 3.'', 300)]
          (initial_state Map.empty)))
       = [''High-Risk'', ''Mild'', ''Normal'']
   \<and> map timestamp
       (history (saveToHistory_seq (\<lambda>h. concat (map classification h))
          [(\<lparr>cobbAngle = 5, classification = ''Normal'', date = None\<rparr>, ''2025. 1. 1.'', 100),
           (\<lparr>cobbAngle = 14, classification = ''Mild'', date = None\<rparr>, ''2025. 1. 2.'', 200),
           (\<lparr>cobbAngle = 30, classification = ''High-Risk'', date = None\<rparr>, ''2025. 1. 3.'', 300)]
          (initial_state Map.empty)))
       = [300, 200, 100]
   \<and> localStorage
       (saveToHistory_seq (\<lambda>h. concat (map classification h))
          [(\<lparr>cobbAngle = 5, classification = ''Normal'', date = None\<rparr>, ''2025. 1. 1.'', 100),
           (\<lparr>cobbAngle = 14, classification = ''Mild'', date = None\<rparr>, ''2025. 1. 2.'', 200),
           (\<lparr>cobbAngle = 30, classification = ''High-Risk'', date = None\<rparr>, ''2025. 1. 3.'', 300)]
          (initial_state Map.empty)) ''scolio_history''
       = Some ''High-RiskMildNormal''"
proof -
  let ?f = "\<lambda>h :: HistoryItem list. concat (map classification h)"
  let ?r1 = "\<lparr>cobbAngle = 5, classification = ''Normal'', date = None\<rparr>"
  let ?r2 = "\<lparr>cobbAngle = 14, classification = ''Mild'', date = None\<rparr>"
  let ?r3 = "\<lparr>cobbAngle = 30, classification = ''High-Risk'', date = None\<rparr>"
  let ?s = "initial_state Map.empty"
  let ?xs = "[(?r1, ''2025. 1. 1.'', 100 :: int), (?r2, ''2025. 1. 2.'', 200), (?r3, ''2025. 1. 3.'', 300)]"
  have e: "history ?s = []" by (simp add: initial_state_def)
  have ne: "?xs \<noteq> []" by simp
  note t = saveToHistory_prepends [where s = ?s and f = ?f
      and ?r1.0 = ?r1 and ?d1.0 = "''2025. 1. 1.''" and ?t1.0 = 100
      and ?r2.0 = ?r2 and ?d2.0 = "''2025. 1. 2.''" and ?t2.0 = 200
      and ?r3.0 = ?r3 and ?d3.0 = "''2025. 1. 3.''" and ?t3.0 = 300
      and xs = ?xs and r = ?r1 and d = "''2025. 1. 1.''" and t = 100]
  from t e have h: "history (saveToHistory_seq ?f ?xs ?s)
      = [newItem ?r3 ''2025. 1. 3.'' 300, newItem ?r2 ''2025. 1. 2.'' 200, newItem ?r1 ''2025. 1. 1.'' 100]"
    by blast
  from t e have st: "localStorage (saveToHistory_seq ?f ?xs ?s) ''scolio_history''
      = Some (?f [newItem ?r3 ''2025. 1. 3.'' 300, newItem ?r2 ''2025. 1. 2.'' 200,
                  newItem ?r1 ''2025. 1. 1.'' 100])"
    by blast
  from t ne have st': "localStorage (saveToHistory_seq ?f ?xs ?s) ''scolio_history''
      = Some (?f (rev (map (\<lambda>(r, d, t). newItem r d t) ?xs) @ history ?s))"
    by blast
  have hc: "map classification (history (saveToHistory_seq ?f ?xs ?s))
      = [''High-Risk'', ''Mild'', ''Normal'']"
    by (simp only: h) (simp add: newItem_def)
  have ht: "map timestamp (history (saveToHistory_seq ?f ?xs ?s)) = [300, 200, 100]"
    by (simp only: h) (simp add: newItem_def)
  have hs: "localStorage (saveToHistory_seq ?f ?xs ?s) ''scolio_history''
      = Some ''High-RiskMildNormal''"
    by (simp only: st') (simp add: newItem_def e)
  from e hc ht hs show ?thesis by blast
qed

text \<open>
  C8. When the stored history is missing, or is a value that \<open>JSON.parse\<close> rejects, the
  history after the start-up effect is empty, the error message is still empty and no
  alert has been made.
\<close>

theorem history_load_corrupt_empty:
  "(storage ''scolio_history'' = None \<longrightarrow>
      history (useEffect_init parse env (initial_state storage)) = []
      \<and> error (useEffect_init parse env (initial_state storage)) = NoError
      \<and> alerts (useEffect_init parse env (initial_state storage)) = [])
   \<and> (storage ''scolio_history'' = Some v \<and> parse v = None \<longrightarrow>
      history (useEffect_init parse env (initial_state storage)) = []
      \<and> error (useEffect_init parse env (initial_state storage)) = NoError
      \<and> alerts (useEffect_init parse env (initial_state storage)) = [])"
  by (simp add: useEffect_init_def initial_state_def env_get_def Let_def truthy_def)

theorem history_load_corrupt_empty_witness:
  "Map.empty ''scolio_history'' = (None :: string option)
   \<and> history (useEffect_init (\<lambda>v. if v = ''[]'' then Some [] else None)
        \<lparr>import_meta_env = None, process_env = None\<rparr> (initial_state Map.empty)) = []
   \<and> [''scolio_history'' \<mapsto> ''[{oops''] ''scolio_history'' = Some ''[{oops''
   \<and> (\<lambda>v. if v = ''[]'' then Some [] else (None :: HistoryItem list option)) ''[{oops'' = None
   \<and> history (useEffect_init (\<lambda>v. if v = ''[]'' then Some [] else None)
        \<lparr>import_meta_env = None, process_env = None\<rparr>
        (initial_state [''scolio_history'' \<mapsto> ''[{oops''])) = []
   \<and> error (useEffect_init (\<lambda>v. if v = ''[]'' then Some [] else None)
        \<lparr>import_meta_env = None, process_env = None\<rparr>
        (initial_state [''scolio_history'' \<mapsto> ''[{oops''])) = NoError"
proof -
  let ?parse = "\<lambda>v. if v = ''[]'' then Some [] else (None :: HistoryItem list option)"
  let ?env = "\<lparr>import_meta_env = None, process_env = None\<rparr>"
  have a: "Map.empty ''scolio_history'' = (None :: string option)" by simp
  have b: "[''scolio_history'' \<mapsto> ''[{oops''] ''scolio_history'' = Some ''[{oops''
      \<and> ?parse ''[{oops'' = None" by simp
  from history_load_corrupt_empty [of Map.empty ?parse ?env "''[{oops''"] a
  have m: "history (useEffect_init ?parse ?env (initial_state Map.empty)) = []" by blast
  from history_load_corrupt_empty
    [of "[''scolio_history'' \<mapsto> ''[{oops'']" ?parse ?env "''[{oops''"] b
  have c: "history (useEffect_init ?parse ?env (initial_state [''scolio_history'' \<mapsto> ''[{oops''])) = []
      \<and> error (useEffect_init ?parse ?env (initial_state [''scolio_history'' \<mapsto> ''[{oops''])) = NoError"
    by blast
  from a b m c show ?thesis by blast
qed

subsection \<open>Classification of failures\<close>

text \<open>
  C9. When the lower-cased text of what was thrown contains \<open>429\<close> or \<open>quota\<close>, the
  \<open>catch\<close> block sets the message that the quota is exceeded and opens the settings
  panel, whatever else the text contains: the test comes before those for an
  authentication failure, a bad input and the content policy. So an analysis whose call
  throws such a text ends with that message, the settings panel open, no result and the
  loading flag off. A text that contains none of the seven patterns gives the generic
  message and leaves the settings panel as it was.
\<close>

theorem rate_limit_classified_first:
  "(includes_str (toLowerCase e) ''429'' \<or> includes_str (toLowerCase e) ''quota'' \<longrightarrow>
      error (handleAnalyze_catch e s) = ErrQuotaExceeded
      \<and> isSettingsModalOpen (handleAnalyze_catch e s))
   \<and> (imageFile s \<and> truthy (handleAnalyze_apiKey env s)
       \<and> try_body (handleAnalyze_apiKey env s) = Throws e
       \<and> (includes_str (toLowerCase e) ''429'' \<or> includes_str (toLowerCase e) ''quota'') \<longrightarrow>
      error (handleAnalyze env try_body stringify today now s) = ErrQuotaExceeded
      \<and> isSettingsModalOpen (handleAnalyze env try_body stringify today now s)
      \<and> \<not> isLoading (handleAnalyze env try_body stringify today now s)
      \<and> result (handleAnalyze env try_body stringify today now s) = None)
   \<and> (\<not> includes_str (toLowerCase e) ''429'' \<and> \<not> includes_str (toLowerCase e) ''quota''
       \<and> \<not> includes_str (toLowerCase e) ''key'' \<and> \<not> includes_str (toLowerCase e) ''403''
       \<and> \<not> includes_str (toLowerCase e) ''401'' \<and> \<not> includes_str (toLowerCase e) ''400''
       \<and> \<not> includes_str (toLowerCase e) ''safety'' \<longrightarrow>
      error (handleAnalyze_catch e s) = ErrGenericNetwork
      \<and> isSettingsModalOpen (handleAnalyze_catch e s) = isSettingsModalOpen s)"
  by (simp add: handleAnalyze_catch_def handleAnalyze_def Let_def)

theorem rate_limit_classified_first_witness:
  "includes_str (toLowerCase ''Error: 429 Quota exceeded for API key'') ''429''
   \<and> includes_str (toLowerCase ''Error: 429 Quota exceeded for API key'') ''key''
   \<and> error (handleAnalyze_catch ''Error: 429 Quota exceeded for API key''
        ((initial_state Map.empty)\<lparr>imageFile := True, manualApiKey := ''AIzaSyTESTKEY1234''\<rparr>))
      = ErrQuotaExceeded
   \<and> error (handleAnalyze \<lparr>import_meta_env = None, process_env = None\<rparr>
        (\<lambda>k. Throws ''Error: 429 Quota exceeded for API key'') (\<lambda>h. []) ''2025. 1. 1.'' 0
        ((initial_state Map.empty)\<lparr>imageFile := True, manualApiKey := ''AIzaSyTESTKEY1234''\<rparr>))
      = ErrQuotaExceeded
   \<and> isSettingsModalOpen (handleAnalyze \<lparr>import_meta_env = None, process_env = None\<rparr>
        (\<lambda>k. Throws ''Error: 429 Quota exceeded for API key'') (\<lambda>h. []) ''2025. 1. 1.'' 0
        ((initial_state Map.empty)\<lparr>imageFile := True, manualApiKey := ''AIzaSyTESTKEY1234''\<rparr>))
   \<and> error (handleAnalyze_catch ''TypeError: Failed to fetch''
        ((initial_state Map.empty)\<lparr>imageFile := True, manualApiKey := ''AIzaSyTESTKEY1234''\<rparr>))
      = ErrGenericNetwork
   \<and> \<not> isSettingsModalOpen (handleAnalyze_catch ''TypeError: Failed to fetch''
        ((initial_state Map.empty)\<lparr>imageFile := True, manualApiKey := ''AIzaSyTESTKEY1234''\<rparr>))"
proof -
  let ?e = "''Error: 429 Quota exceeded for API key''"
  let ?g = "''TypeError: Failed to fetch''"
  let ?env = "\<lparr>import_meta_env = None, process_env = None\<rparr>"
  let ?s = "(initial_state Map.empty)\<lparr>imageFile := True, manualApiKey := ''AIzaSyTESTKEY1234''\<rparr>"
  let ?tb = "\<lambda>k :: string. Throws ?e"
  have le: "toLowerCase ?e = ''error: 429 quota exceeded for api key''" by code_simp
  have lg: "toLowerCase ?g = ''typeerror: failed to fetch''" by code_simp
  have a: "includes_str (toLowerCase ?e) ''429''" by (simp add: le)
  have a': "includes_str (toLowerCase ?e) ''key''" by (simp add: le)
  have k: "imageFile ?s \<and> truthy (handleAnalyze_apiKey ?env ?s)
      \<and> ?tb (handleAnalyze_apiKey ?env ?s) = Throws ?e"
    by (simp add: handleAnalyze_apiKey_def getEnvConfig_def env_lookup_def truthy_def
        initial_state_def)
  have n: "\<not> includes_str (toLowerCase ?g) ''429'' \<and> \<not> includes_str (toLowerCase ?g) ''quota''
      \<and> \<not> includes_str (toLowerCase ?g) ''key'' \<and> \<not> includes_str (toLowerCase ?g) ''403''
      \<and> \<not> includes_str (toLowerCase ?g) ''401'' \<and> \<not> includes_str (toLowerCase ?g) ''400''
      \<and> \<not> includes_str (toLowerCase ?g) ''safety''"
    by (simp add: lg)
  from rate_limit_classified_first [where e = ?e and s = ?s and env = ?env and try_body = ?tb
      and stringify = "\<lambda>h. []" and today = "''2025. 1. 1.''" and now = 0] a k
  have c1: "error (handleAnalyze_catch ?e ?s) = ErrQuotaExceeded
      \<and> error (handleAnalyze ?env ?tb (\<lambda>h. []) ''2025. 1. 1.'' 0 ?s) = ErrQuotaExceeded
      \<and> isSettingsModalOpen (handleAnalyze ?env ?tb (\<lambda>h. []) ''2025. 1. 1.'' 0 ?s)"
    by blast
  from rate_limit_classified_first [where e = ?g and s = ?s and env = ?env and try_body = ?tb
      and stringify = "\<lambda>h. []" and today = "''2025. 1. 1.''" and now = 0] n
  have c3: "error (handleAnalyze_catch ?g ?s) = ErrGenericNetwork
      \<and> isSettingsModalOpen (handleAnalyze_catch ?g ?s) = isSettingsModalOpen ?s"
    by blast
  have o: "\<not> isSettingsModalOpen ?s" by (simp add: initial_state_def)
  from a a' c1 c3 o show ?thesis by simp
qed

end
